theory Spec2Isabelle
  imports Main "HOL-Library.Sublist" "HOL-Library.Char_ord" "HOL-Library.List_Lexorder"
    "HOL-Library.Product_Lexorder"
begin

section \<open>Data model of the MCP client\<close>

text \<open>
  The client (\<^verbatim>\<open>src/client/mcp_client.py\<close>) keeps its conversation as a list of Python
  dictionaries and talks to three outside parties: the LLM endpoint, the RPC session of
  the tool server, and the file system with its clock. Dynamic Python values are
  embedded as follows.
  \<^item> Structured data (parsed JSON arguments, tool input schemas, message contents,
    tool result payloads, dictionaries) is a \<open>pyval\<close>; a dictionary keeps its insertion
    order as an association list.
  \<^item> A message dictionary has at most the keys \<^verbatim>\<open>role\<close>, \<^verbatim>\<open>content\<close>, \<^verbatim>\<open>tool_calls\<close> and
    \<^verbatim>\<open>tool_call_id\<close>; it is a record of optional fields, \<open>None\<close> meaning that the key
    is absent (a key that is present with the value \<^verbatim>\<open>None\<close> is \<open>Some PyNone\<close>).
  \<^item> Exceptions are values of \<open>exn\<close>; a function that can raise returns
    \<open>exn + 'a\<close> together with the state it leaves behind.
  Calls to the logger only write diagnostics and are left out.
\<close>

datatype pyval =
    PyNone
  | PyBool bool
  | PyInt int
  | PyStr string
  | PyList "pyval list"
  | PyDict "(string \<times> pyval) list"

datatype exn =
    ValueError string
  | JSONDecodeError
  | AttributeError
  | IndexError
  | KeyError string
  | FileExistsError
  | FileNotFoundError
  | IsADirectoryError
  | ExternalError string

type_synonym 'a result = "exn + 'a"

text \<open>
  A tool call as the recorder and the dispatcher meet it. \<open>Structured\<close> is the object
  of the LLM library: it has the attributes \<^verbatim>\<open>id\<close>, \<^verbatim>\<open>function.name\<close>,
  \<^verbatim>\<open>function.arguments\<close> and a method \<^verbatim>\<open>to_dict\<close>, whose result is the last field.
  \<open>Mapping\<close> is a plain dictionary. \<open>Plain\<close> is an object with the three attributes
  and no \<^verbatim>\<open>to_dict\<close>. \<open>Opaque\<close> is any other object.
\<close>

record function_call =
  fn_name :: string
  fn_arguments :: string

datatype tool_call =
    Structured string function_call pyval
  | Mapping "(string \<times> pyval) list"
  | Plain string function_call
  | Opaque

record message =
  m_role :: "string option"
  m_content :: "pyval option"
  m_tool_calls :: "tool_call list option"
  m_tool_call_id :: "string option"

text \<open>The serializable dictionary the recorder builds for one message.\<close>

record serial_message =
  s_role :: string
  s_content :: "pyval option"
  s_tool_calls :: "pyval list option"
  s_tool_call_id :: "string option"

text \<open>Tool descriptors of the server and the schema entries handed to the LLM.\<close>

record tool_descriptor =
  td_name :: string
  td_description :: "string option"
  td_inputSchema :: pyval

record function_schema =
  fs_name :: string
  fs_description :: "string option"
  fs_parameters :: pyval

record tool_schema =
  ts_type :: string
  ts_function :: function_schema

text \<open>
  The response of the LLM library. \<open>Response\<close> holds \<^verbatim>\<open>response.choices[i].message\<close> for
  every choice, with its \<^verbatim>\<open>content\<close> (a string or \<^verbatim>\<open>None\<close>) and its \<^verbatim>\<open>tool_calls\<close> (a
  list or \<^verbatim>\<open>None\<close>); \<open>NoChoices\<close> is a response object without the attribute
  \<^verbatim>\<open>choices\<close>. The result of \<^verbatim>\<open>call_tool\<close> carries the payload \<^verbatim>\<open>content\<close>.
\<close>

record llm_message =
  lm_content :: pyval
  lm_tool_calls :: "tool_call list option"

datatype response =
    NoChoices
  | Response "llm_message list"

record call_tool_result =
  ctr_content :: pyval
  ctr_isError :: bool

record datetime =
  year :: nat
  month :: nat
  day :: nat
  hour :: nat
  minute :: nat
  second :: nat
  microsecond :: nat

section \<open>State and environment\<close>

text \<open>
  The state holds the fields of \<^verbatim>\<open>MCPClient\<close> that the code reads and writes
  (\<open>session\<close>, \<open>exit_stack\<close>, \<open>tools\<close>, \<open>messages\<close>) and the part of the outside that
  it changes: the directories and files of the working directory, and a trace to which
  every interaction with the outside is appended in the order in which it happens. The
  outside parties (transport, RPC session, LLM endpoint, clock) are functions of the
  trace so far, so their answers may depend on everything that happened before;
  \<^verbatim>\<open>json.loads\<close> is a function of its argument. An \<open>exn option\<close> is \<open>None\<close> when the call
  succeeds.
\<close>

datatype resource = StdioTransport | SessionResource

datatype event =
    SpawnServer string "string list"
  | OpenSession
  | Initialize
  | ListTools
  | LLMCall "message list" "tool_schema list"
  | CallTool string pyval
  | Recorded string "serial_message list"

datatype client_session = ClientSession

record state =
  session :: "client_session option"
  exit_stack :: "resource list"
  tools :: "tool_schema list"
  messages :: "message list"
  trace :: "event list"
  dirs :: "string set"
  files :: "string \<rightharpoonup> serial_message list"

record env =
  stdio_client :: "event list \<Rightarrow> string \<Rightarrow> string list \<Rightarrow> exn option"
  enter_session :: "event list \<Rightarrow> exn option"
  rpc_initialize :: "event list \<Rightarrow> exn option"
  rpc_list_tools :: "event list \<Rightarrow> tool_descriptor list result"
  rpc_call_tool :: "event list \<Rightarrow> string \<Rightarrow> pyval \<Rightarrow> call_tool_result result"
  llm_create :: "event list \<Rightarrow> message list \<Rightarrow> tool_schema list \<Rightarrow> response result"
  json_loads :: "string \<Rightarrow> pyval result"
  now :: "event list \<Rightarrow> datetime"

section \<open>Connecting and tool discovery\<close>

text \<open>\<^verbatim>\<open>str.endswith\<close> for a single suffix.\<close>

definition endswith :: "string \<Rightarrow> string \<Rightarrow> bool" where
  "endswith s suf \<longleftrightarrow>
     length suf \<le> length s \<and> drop (length s - length suf) s = suf"

text \<open>\<^verbatim>\<open>get_mcp_tools\<close>: \<^verbatim>\<open>self.session.list_tools()\<close>, then \<^verbatim>\<open>response.tools\<close>.\<close>

definition get_mcp_tools :: "env \<Rightarrow> state \<Rightarrow> tool_descriptor list result \<times> state" where
  "get_mcp_tools E s =
     (case session s of
        None \<Rightarrow> (Inl AttributeError, s)
      | Some _ \<Rightarrow> (rpc_list_tools E (trace s), s\<lparr>trace := trace s @ [ListTools]\<rparr>))"

text \<open>One element of the list comprehension that fills \<^verbatim>\<open>self.tools\<close>.\<close>

definition schema_entry :: "tool_descriptor \<Rightarrow> tool_schema" where
  "schema_entry tool =
     \<lparr>ts_type = ''function'',
      ts_function = \<lparr>fs_name = td_name tool,
                     fs_description = td_description tool,
                     fs_parameters = td_inputSchema tool\<rparr>\<rparr>"

text \<open>
  \<^verbatim>\<open>connect_to_server\<close>. Entering a context pushes it on the exit stack; an exception
  leaves what was acquired so far in place, and the handler re-raises.
\<close>

definition connect_to_server :: "env \<Rightarrow> state \<Rightarrow> string \<Rightarrow> bool result \<times> state" where
  "connect_to_server E s server_script_path =
     (let is_python = endswith server_script_path ''.py'';
          is_js = endswith server_script_path ''.js''
      in if \<not> (is_python \<or> is_js)
         then (Inl (ValueError ''Server script must be a .py or .js file''), s)
         else
           (let command = (if is_python then ''python'' else ''node'');
                s1 = s\<lparr>trace := trace s @ [SpawnServer command [server_script_path]]\<rparr>
            in (case stdio_client E (trace s) command [server_script_path] of
                  Some e \<Rightarrow> (Inl e, s1)
                | None \<Rightarrow>
                   (let s2 = s1\<lparr>exit_stack := StdioTransport # exit_stack s1\<rparr>;
                        s3 = s2\<lparr>trace := trace s2 @ [OpenSession]\<rparr>
                    in (case enter_session E (trace s2) of
                          Some e \<Rightarrow> (Inl e, s3)
                        | None \<Rightarrow>
                           (let s4 = s3\<lparr>exit_stack := SessionResource # exit_stack s3,
                                       session := Some ClientSession\<rparr>;
                                s5 = s4\<lparr>trace := trace s4 @ [Initialize]\<rparr>
                            in (case rpc_initialize E (trace s4) of
                                  Some e \<Rightarrow> (Inl e, s5)
                                | None \<Rightarrow>
                                   (case get_mcp_tools E s5 of
                                      (Inl e, s6) \<Rightarrow> (Inl e, s6)
                                    | (Inr mcp_tools, s6) \<Rightarrow>
                                        (Inr True,
                                         s6\<lparr>tools := map schema_entry mcp_tools\<rparr>)))))))))"

section \<open>The conversation recorder\<close>

text \<open>
  The branches of the recorder on one element of \<^verbatim>\<open>message["tool_calls"]\<close>, in the
  order of the source: an object with \<^verbatim>\<open>to_dict\<close>, then a dictionary, then attribute
  access, which raises on an object without the attributes.
\<close>

fun serialize_tool_call :: "tool_call \<Rightarrow> pyval result" where
  "serialize_tool_call (Structured i f d) = Inr d"
| "serialize_tool_call (Mapping kvs) = Inr (PyDict kvs)"
| "serialize_tool_call (Plain i f) =
     Inr (PyDict [(''id'', PyStr i),
                  (''function'', PyDict [(''name'', PyStr (fn_name f)),
                                         (''arguments'', PyStr (fn_arguments f))])])"
| "serialize_tool_call Opaque = Inl AttributeError"

fun serialize_tool_calls :: "tool_call list \<Rightarrow> pyval list result" where
  "serialize_tool_calls [] = Inr []"
| "serialize_tool_calls (tool_call # rest) =
     (case serialize_tool_call tool_call of
        Inl e \<Rightarrow> Inl e
      | Inr d \<Rightarrow>
          (case serialize_tool_calls rest of
             Inl e \<Rightarrow> Inl e
           | Inr ds \<Rightarrow> Inr (d # ds)))"

text \<open>The body of the loop over \<^verbatim>\<open>self.messages\<close> in \<^verbatim>\<open>log_conversation\<close>.\<close>

definition serialize_message :: "message \<Rightarrow> serial_message result" where
  "serialize_message message =
     (case m_role message of
        None \<Rightarrow> Inl (KeyError ''role'')
      | Some r \<Rightarrow>
          (case m_tool_calls message of
             None \<Rightarrow>
               Inr \<lparr>s_role = r, s_content = m_content message,
                    s_tool_calls = None, s_tool_call_id = m_tool_call_id message\<rparr>
           | Some tool_calls \<Rightarrow>
               (case serialize_tool_calls tool_calls of
                  Inl e \<Rightarrow> Inl e
                | Inr ds \<Rightarrow>
                    Inr \<lparr>s_role = r, s_content = m_content message,
                         s_tool_calls = Some ds,
                         s_tool_call_id = m_tool_call_id message\<rparr>)))"

fun serialize_conversation :: "message list \<Rightarrow> serial_message list result" where
  "serialize_conversation [] = Inr []"
| "serialize_conversation (message # rest) =
     (case serialize_message message of
        Inl e \<Rightarrow> Inl e
      | Inr sm \<Rightarrow>
          (case serialize_conversation rest of
             Inl e \<Rightarrow> Inl e
           | Inr sms \<Rightarrow> Inr (sm # sms)))"

text \<open>
  \<^verbatim>\<open>strftime("%Y-%m-%d_%H-%M-%S")\<close>: zero-padded decimal fields, the year on four
  digits; the microseconds are not part of the format.
\<close>

definition digit_char :: "nat \<Rightarrow> char" where
  "digit_char d = ''0123456789'' ! (d mod 10)"

definition pad2 :: "nat \<Rightarrow> string" where
  "pad2 n = [digit_char (n div 10), digit_char n]"

definition pad4 :: "nat \<Rightarrow> string" where
  "pad4 n = [digit_char (n div 1000), digit_char (n div 100), digit_char (n div 10),
             digit_char n]"

definition strftime :: "datetime \<Rightarrow> string" where
  "strftime t =
     pad4 (year t) @ ''-'' @ pad2 (month t) @ ''-'' @ pad2 (day t) @ ''_'' @
     pad2 (hour t) @ ''-'' @ pad2 (minute t) @ ''-'' @ pad2 (second t)"

text \<open>\<^verbatim>\<open>os.path.join("conversations", f"conversation_{timestamp}.json")\<close>.\<close>

definition record_path :: "datetime \<Rightarrow> string" where
  "record_path t = ''conversations'' @ ''/'' @ ''conversation_'' @ strftime t @ ''.json''"

text \<open>
  \<^verbatim>\<open>os.makedirs(d, exist_ok=True)\<close> raises when \<open>d\<close> exists and is not a directory.
  \<^verbatim>\<open>open(path, "w")\<close> raises when \<open>path\<close> is a directory or its directory is missing;
  otherwise it truncates the file, and \<^verbatim>\<open>json.dump\<close> writes the whole structure (with
  \<^verbatim>\<open>default=str\<close> for values that are not JSON). The content of a file is kept as the
  structure that was dumped.
\<close>

definition makedirs :: "state \<Rightarrow> string \<Rightarrow> unit result \<times> state" where
  "makedirs s d =
     (if d \<in> dom (files s) then (Inl FileExistsError, s)
      else (Inr (), s\<lparr>dirs := insert d (dirs s)\<rparr>))"

definition write_json :: "state \<Rightarrow> string \<Rightarrow> string \<Rightarrow> serial_message list \<Rightarrow> unit result \<times> state" where
  "write_json s d filepath conversation =
     (if filepath \<in> dirs s then (Inl IsADirectoryError, s)
      else if d \<notin> dirs s then (Inl FileNotFoundError, s)
      else (Inr (), s\<lparr>files := (files s)(filepath \<mapsto> conversation),
                       trace := trace s @ [Recorded filepath conversation]\<rparr>))"

definition log_conversation :: "env \<Rightarrow> state \<Rightarrow> unit result \<times> state" where
  "log_conversation E s =
     (case makedirs s ''conversations'' of
        (Inl e, s1) \<Rightarrow> (Inl e, s1)
      | (Inr _, s1) \<Rightarrow>
          (case serialize_conversation (messages s1) of
             Inl e \<Rightarrow> (Inl e, s1)
           | Inr serializable_conversation \<Rightarrow>
               write_json s1 ''conversations'' (record_path (now E (trace s1)))
                 serializable_conversation))"

section \<open>The agent loop\<close>

definition user_message :: "string \<Rightarrow> message" where
  "user_message query =
     \<lparr>m_role = Some ''user'', m_content = Some (PyStr query),
      m_tool_calls = None, m_tool_call_id = None\<rparr>"

definition final_message :: "llm_message \<Rightarrow> message" where
  "final_message msg =
     \<lparr>m_role = Some ''assistant'', m_content = Some (lm_content msg),
      m_tool_calls = None, m_tool_call_id = None\<rparr>"

definition tool_request_message :: "llm_message \<Rightarrow> message" where
  "tool_request_message msg =
     \<lparr>m_role = Some ''assistant'', m_content = Some (lm_content msg),
      m_tool_calls = lm_tool_calls msg, m_tool_call_id = None\<rparr>"

definition tool_message :: "string \<Rightarrow> call_tool_result \<Rightarrow> message" where
  "tool_message tool_use_id res =
     \<lparr>m_role = Some ''tool'', m_content = Some (ctr_content res),
      m_tool_calls = None, m_tool_call_id = Some tool_use_id\<rparr>"

text \<open>\<^verbatim>\<open>call_llm\<close>: the request carries the whole conversation and the tool schemas.\<close>

definition call_llm :: "env \<Rightarrow> state \<Rightarrow> response result \<times> state" where
  "call_llm E s =
     (llm_create E (trace s) (messages s) (tools s),
      s\<lparr>trace := trace s @ [LLMCall (messages s) (tools s)]\<rparr>)"

text \<open>
  The attribute reads at the head of the body of the \<^verbatim>\<open>for\<close> loop:
  \<^verbatim>\<open>tool_call.function.name\<close>, \<^verbatim>\<open>tool_call.function.arguments\<close>, \<^verbatim>\<open>tool_call.id\<close>.
\<close>

fun tool_call_attributes :: "tool_call \<Rightarrow> (string \<times> string \<times> string) result" where
  "tool_call_attributes (Structured i f d) = Inr (fn_name f, fn_arguments f, i)"
| "tool_call_attributes (Plain i f) = Inr (fn_name f, fn_arguments f, i)"
| "tool_call_attributes (Mapping kvs) = Inl AttributeError"
| "tool_call_attributes Opaque = Inl AttributeError"

text \<open>One pass through the body of \<^verbatim>\<open>for tool_call in message.tool_calls\<close>.\<close>

definition dispatch_tool_call :: "env \<Rightarrow> state \<Rightarrow> tool_call \<Rightarrow> unit result \<times> state" where
  "dispatch_tool_call E s tool_call =
     (case tool_call_attributes tool_call of
        Inl e \<Rightarrow> (Inl e, s)
      | Inr (tool_name, arguments, tool_use_id) \<Rightarrow>
          (case json_loads E arguments of
             Inl e \<Rightarrow> (Inl e, s)
           | Inr tool_args \<Rightarrow>
               (case session s of
                  None \<Rightarrow> (Inl AttributeError, s)
                | Some _ \<Rightarrow>
                   (let s1 = s\<lparr>trace := trace s @ [CallTool tool_name tool_args]\<rparr>
                    in (case rpc_call_tool E (trace s) tool_name tool_args of
                          Inl e \<Rightarrow> (Inl e, s1)
                        | Inr res \<Rightarrow>
                            log_conversation E
                              (s1\<lparr>messages :=
                                    messages s1 @ [tool_message tool_use_id res]\<rparr>))))))"

fun dispatch_tool_calls :: "env \<Rightarrow> state \<Rightarrow> tool_call list \<Rightarrow> unit result \<times> state" where
  "dispatch_tool_calls E s [] = (Inr (), s)"
| "dispatch_tool_calls E s (tool_call # rest) =
     (case dispatch_tool_call E s tool_call of
        (Inl e, s1) \<Rightarrow> (Inl e, s1)
      | (Inr _, s1) \<Rightarrow> dispatch_tool_calls E s1 rest)"

text \<open>
  Python's truth value of \<^verbatim>\<open>message.tool_calls\<close>: \<^verbatim>\<open>None\<close> and the empty list are false.
\<close>

fun truthy :: "'a list option \<Rightarrow> bool" where
  "truthy None = False"
| "truthy (Some xs) = (xs \<noteq> [])"

text \<open>
  The \<^verbatim>\<open>while True\<close> loop of \<^verbatim>\<open>process_query\<close>. The model may ask for tools forever, so
  the loop takes fuel, one unit per turn; \<open>None\<close> says that the loop is still running
  when the fuel is used up, \<open>Some (Inl e)\<close> that it raised, \<open>Some (Inr ())\<close> that it
  reached \<^verbatim>\<open>break\<close>. A response without \<^verbatim>\<open>choices\<close> passes the guard of the first
  branch and raises at \<^verbatim>\<open>response.choices\<close> in its body; an empty \<^verbatim>\<open>choices\<close> raises in
  the guard.
\<close>

fun query_loop :: "env \<Rightarrow> nat \<Rightarrow> state \<Rightarrow> unit result option \<times> state" where
  "query_loop E 0 s = (None, s)"
| "query_loop E (Suc n) s =
     (case call_llm E s of
        (Inl e, s1) \<Rightarrow> (Some (Inl e), s1)
      | (Inr NoChoices, s1) \<Rightarrow> (Some (Inl AttributeError), s1)
      | (Inr (Response []), s1) \<Rightarrow> (Some (Inl IndexError), s1)
      | (Inr (Response (msg # _)), s1) \<Rightarrow>
          if \<not> truthy (lm_tool_calls msg) then
            (case log_conversation E (s1\<lparr>messages := messages s1 @ [final_message msg]\<rparr>) of
               (Inl e, s2) \<Rightarrow> (Some (Inl e), s2)
             | (Inr _, s2) \<Rightarrow> (Some (Inr ()), s2))
          else
            (case log_conversation E
                    (s1\<lparr>messages := messages s1 @ [tool_request_message msg]\<rparr>) of
               (Inl e, s2) \<Rightarrow> (Some (Inl e), s2)
             | (Inr _, s2) \<Rightarrow>
                 (case dispatch_tool_calls E s2 (the (lm_tool_calls msg)) of
                    (Inl e, s3) \<Rightarrow> (Some (Inl e), s3)
                  | (Inr _, s3) \<Rightarrow> query_loop E n s3)))"

text \<open>
  \<^verbatim>\<open>process_query\<close>: the conversation is set to the user message, the loop runs, and
  \<^verbatim>\<open>self.messages\<close> is returned; an exception is re-raised.
\<close>

definition process_query :: "env \<Rightarrow> nat \<Rightarrow> state \<Rightarrow> string \<Rightarrow> message list result option \<times> state" where
  "process_query E fuel s query =
     (case query_loop E fuel (s\<lparr>messages := [user_message query]\<rparr>) of
        (None, s1) \<Rightarrow> (None, s1)
      | (Some (Inl e), s1) \<Rightarrow> (Some (Inl e), s1)
      | (Some (Inr _), s1) \<Rightarrow> (Some (Inr (messages s1)), s1))"

section \<open>Scenarios\<close>

text \<open>
  Concrete environments and states on which the theorems below are instantiated. The
  server offers one tool, \<^verbatim>\<open>get_weather\<close>; the clock advances by one second with
  every event.
\<close>

definition weather_call :: tool_call where
  "weather_call =
     Structured ''call_1'' \<lparr>fn_name = ''get_weather'', fn_arguments = ''{}''\<rparr>
       (PyDict [(''id'', PyStr ''call_1''),
                (''function'', PyDict [(''arguments'', PyStr ''{}''),
                                       (''name'', PyStr ''get_weather'')]),
                (''type'', PyStr ''function'')])"

definition weather_request :: llm_message where
  "weather_request = \<lparr>lm_content = PyNone, lm_tool_calls = Some [weather_call]\<rparr>"

definition weather_answer :: llm_message where
  "weather_answer = \<lparr>lm_content = PyStr ''15C and cloudy'', lm_tool_calls = None\<rparr>"

definition weather_result :: call_tool_result where
  "weather_result = \<lparr>ctr_content = PyList [PyStr ''15C, cloudy''], ctr_isError = False\<rparr>"

definition demo_env :: env where
  "demo_env =
     \<lparr>stdio_client = (\<lambda>h command args. None),
      enter_session = (\<lambda>h. None),
      rpc_initialize = (\<lambda>h. None),
      rpc_list_tools = (\<lambda>h. Inr [\<lparr>td_name = ''get_weather'',
                                     td_description = Some ''Weather of a city'',
                                     td_inputSchema = PyDict []\<rparr>]),
      rpc_call_tool = (\<lambda>h name args.
         if name = ''get_weather'' then Inr weather_result
         else Inl (ExternalError ''unknown tool'')),
      llm_create = (\<lambda>h msgs schemas.
         if length msgs = 1 then Inr (Response [weather_request])
         else Inr (Response [weather_answer])),
      json_loads = (\<lambda>a. if a = ''{}'' then Inr (PyDict []) else Inl JSONDecodeError),
      now = (\<lambda>h. \<lparr>year = 2026, month = 11, day = 3, hour = 10, minute = 0,
                     second = length h, microsecond = 0\<rparr>)\<rparr>"

definition fresh :: state where
  "fresh = \<lparr>session = None, exit_stack = [], tools = [], messages = [], trace = [],
            dirs = {}, files = Map.empty\<rparr>"

definition connected :: state where
  "connected =
     fresh\<lparr>session := Some ClientSession,
           exit_stack := [SessionResource, StdioTransport],
           tools := [\<lparr>ts_type = ''function'',
                      ts_function = \<lparr>fs_name = ''get_weather'',
                                     fs_description = Some ''Weather of a city'',
                                     fs_parameters = PyDict []\<rparr>\<rparr>],
           trace := [SpawnServer ''python'' [''server.py''], OpenSession, Initialize,
                     ListTools]\<rparr>"

text \<open>An LLM library whose response object has no \<^verbatim>\<open>choices\<close>.\<close>

definition no_choices_env :: env where
  "no_choices_env = demo_env\<lparr>llm_create := (\<lambda>h msgs schemas. Inr NoChoices)\<rparr>"

text \<open>
  An LLM that answers \<^verbatim>\<open>4\<close> at once, and a working directory in which
  \<^verbatim>\<open>conversations\<close> is a regular file.
\<close>

definition four :: llm_message where
  "four = \<lparr>lm_content = PyStr ''4'', lm_tool_calls = None\<rparr>"

definition final_env :: env where
  "final_env = demo_env\<lparr>llm_create := (\<lambda>h msgs schemas. Inr (Response [four]))\<rparr>"

definition blocked :: state where
  "blocked = connected\<lparr>files := [''conversations'' \<mapsto> []]\<rparr>"

text \<open>
  The shape \<^verbatim>\<open>{id, function: {name, arguments}}\<close> that the specification asks of a
  recorded tool call: a dictionary with exactly the keys \<^verbatim>\<open>id\<close> and \<^verbatim>\<open>function\<close>, the
  latter a dictionary with exactly the keys \<^verbatim>\<open>name\<close> and \<^verbatim>\<open>arguments\<close>.
\<close>

definition normal_form :: "pyval \<Rightarrow> bool" where
  "normal_form d =
     (case d of
        PyDict kvs \<Rightarrow>
          map fst kvs = [''id'', ''function''] \<and>
          (case map_of kvs ''function'' of
             Some (PyDict fkvs) \<Rightarrow> map fst fkvs = [''name'', ''arguments'']
           | _ \<Rightarrow> False)
      | _ \<Rightarrow> False)"

text \<open>
  A tool call that arrives as a flat dictionary \<^verbatim>\<open>{id, name, arguments}\<close>, in an
  assistant message that also carries a \<^verbatim>\<open>tool_call_id\<close>.
\<close>

definition flat_call :: tool_call where
  "flat_call = Mapping [(''id'', PyStr ''call_1''), (''name'', PyStr ''get_weather''),
                        (''arguments'', PyStr ''{}'')]"

definition flat_request :: message where
  "flat_request =
     \<lparr>m_role = Some ''assistant'', m_content = Some PyNone,
      m_tool_calls = Some [flat_call], m_tool_call_id = Some ''call_0''\<rparr>"

definition flat_state :: state where
  "flat_state = connected\<lparr>messages := [user_message ''weather?'', flat_request]\<rparr>"

text \<open>The conversation of the weather scenario after the tool result.\<close>

definition weather_state :: state where
  "weather_state =
     connected\<lparr>messages := [user_message ''weather?'', tool_request_message weather_request,
                             tool_message ''call_1'' weather_result]\<rparr>"

text \<open>A tool-role message without \<^verbatim>\<open>tool_call_id\<close>.\<close>

definition orphan_result :: message where
  "orphan_result =
     \<lparr>m_role = Some ''tool'', m_content = Some (PyStr ''15C, cloudy''),
      m_tool_calls = None, m_tool_call_id = None\<rparr>"

definition orphan_state :: state where
  "orphan_state = connected\<lparr>messages := [user_message ''weather?'', orphan_result]\<rparr>"

text \<open>A response whose second tool call is an object without the expected attributes.\<close>

definition opaque_request :: llm_message where
  "opaque_request = \<lparr>lm_content = PyNone, lm_tool_calls = Some [weather_call, Opaque]\<rparr>"

definition opaque_env :: env where
  "opaque_env = demo_env\<lparr>llm_create := (\<lambda>h msgs schemas. Inr (Response [opaque_request]))\<rparr>"





text \<open>
  A turn that asks for three tools, the second of which the server does not know, and a
  turn that asks for two tools that both succeed, followed by the final answer.
\<close>

definition time_call :: tool_call where
  "time_call = Plain ''call_2'' \<lparr>fn_name = ''get_time'', fn_arguments = ''{}''\<rparr>"

definition second_weather_call :: tool_call where
  "second_weather_call = Plain ''call_3'' \<lparr>fn_name = ''get_weather'', fn_arguments = ''{}''\<rparr>"

definition three_calls_request :: llm_message where
  "three_calls_request =
     \<lparr>lm_content = PyNone,
      lm_tool_calls = Some [weather_call, time_call, second_weather_call]\<rparr>"

definition batch_env :: env where
  "batch_env =
     demo_env\<lparr>llm_create := (\<lambda>h msgs schemas. Inr (Response [three_calls_request]))\<rparr>"

definition two_calls_request :: llm_message where
  "two_calls_request =
     \<lparr>lm_content = PyNone, lm_tool_calls = Some [weather_call, second_weather_call]\<rparr>"

definition two_calls_env :: env where
  "two_calls_env =
     demo_env\<lparr>llm_create := (\<lambda>h msgs schemas.
        if length msgs = 1 then Inr (Response [two_calls_request])
        else Inr (Response [weather_answer]))\<rparr>"

section \<open>Helper lemmas\<close>

lemma endswith_suffix: "endswith s suf \<longleftrightarrow> suffix suf s"
  unfolding endswith_def suffix_def
  by (metis append_eq_conv_conj append_take_drop_id diff_add_inverse2 length_append le_add2
      length_drop)

text \<open>Fuel adds up: a loop that is still running after \<open>k\<close> turns goes on from there.\<close>

lemma query_loop_add:
  "query_loop E (k + n) s =
     (case query_loop E k s of
        (None, s') \<Rightarrow> query_loop E n s'
      | (Some r, s') \<Rightarrow> (Some r, s'))"
proof (induction k arbitrary: s)
  case 0
  then show ?case by simp
next
  case (Suc k)
  show ?case
    by (simp add: Suc.IH
        split: prod.splits sum.splits response.splits list.splits option.splits)
qed

lemma process_query_continue:
  assumes "process_query E k s q = (None, s0)"
  shows "process_query E (k + n) s q =
     (case query_loop E n s0 of
        (None, s1) \<Rightarrow> (None, s1)
      | (Some (Inl e), s1) \<Rightarrow> (Some (Inl e), s1)
      | (Some (Inr u), s1) \<Rightarrow> (Some (Inr (messages s1)), s1))"
  using assms
  by (auto simp: process_query_def query_loop_add split: prod.splits sum.splits option.splits)

lemma process_query_start:
  "process_query E 0 s q = (None, s\<lparr>messages := [user_message q]\<rparr>)"
  by (simp add: process_query_def)

text \<open>What the recorder changes, and what it leaves alone.\<close>

lemma log_conversation_keeps:
  "messages (snd (log_conversation E s)) = messages s"
  "session (snd (log_conversation E s)) = session s"
  "tools (snd (log_conversation E s)) = tools s"
  "exit_stack (snd (log_conversation E s)) = exit_stack s"
  by (simp_all add: log_conversation_def makedirs_def write_json_def split: sum.splits)

lemma log_conversation_ok:
  assumes "log_conversation E s = (Inr u, s')"
  shows "\<exists>snap. serialize_conversation (messages s) = Inr snap \<and>
           s' = s\<lparr>dirs := insert ''conversations'' (dirs s),
                  files := (files s)(record_path (now E (trace s)) \<mapsto> snap),
                  trace := trace s @ [Recorded (record_path (now E (trace s))) snap]\<rparr>"
  using assms
  by (auto simp: log_conversation_def makedirs_def write_json_def split: sum.splits if_splits)

lemma log_conversation_trace:
  "log_conversation E s = (r, s') \<Longrightarrow>
     (case r of Inl e \<Rightarrow> trace s' = trace s
      | Inr u \<Rightarrow> \<exists>p snap. trace s' = trace s @ [Recorded p snap])"
  by (auto simp: log_conversation_def makedirs_def write_json_def split: sum.splits if_splits)

text \<open>A turn whose response asks for no tool.\<close>

lemma query_loop_final:
  assumes "llm_create E (trace s) (messages s) (tools s) = Inr (Response (msg # others))"
    and "\<not> truthy (lm_tool_calls msg)"
  shows "query_loop E (Suc n) s =
           (case log_conversation E
                   (s\<lparr>trace := trace s @ [LLMCall (messages s) (tools s)],
                      messages := messages s @ [final_message msg]\<rparr>) of
              (Inl e, s') \<Rightarrow> (Some (Inl e), s')
            | (Inr u, s') \<Rightarrow> (Some (Inr ()), s'))"
  using assms by (simp add: call_llm_def)

text \<open>The recorder, element by element.\<close>

lemma serialize_tool_calls_nth:
  "serialize_tool_calls tcs = Inr ds \<Longrightarrow>
     length ds = length tcs \<and> (\<forall>j<length tcs. serialize_tool_call (tcs ! j) = Inr (ds ! j))"
proof (induction tcs arbitrary: ds)
  case Nil
  then show ?case by simp
next
  case (Cons t tcs)
  then obtain d ds' where d: "serialize_tool_call t = Inr d"
    and ds': "serialize_tool_calls tcs = Inr ds'" and ds: "ds = d # ds'"
    by (auto split: sum.splits)
  from Cons.IH [OF ds'] d ds show ?case
    by (auto simp: nth_Cons split: nat.splits)
qed

lemma serialize_conversation_nth:
  "serialize_conversation ms = Inr snap \<Longrightarrow>
     length snap = length ms \<and> (\<forall>i<length ms. serialize_message (ms ! i) = Inr (snap ! i))"
proof (induction ms arbitrary: snap)
  case Nil
  then show ?case by simp
next
  case (Cons m ms)
  then obtain sm sms where sm: "serialize_message m = Inr sm"
    and sms: "serialize_conversation ms = Inr sms" and snap: "snap = sm # sms"
    by (auto split: sum.splits)
  from Cons.IH [OF sms] sm snap show ?case
    by (auto simp: nth_Cons split: nat.splits)
qed

lemma serialize_tool_call_forms:
  assumes "serialize_tool_call t = Inr d"
  shows "(\<forall>i f dict. t = Structured i f dict \<longrightarrow> d = dict) \<and>
         (\<forall>kvs. t = Mapping kvs \<longrightarrow> d = PyDict kvs) \<and>
         (\<forall>i f. t = Plain i f \<longrightarrow>
            d = PyDict [(''id'', PyStr i),
                        (''function'', PyDict [(''name'', PyStr (fn_name f)),
                                               (''arguments'', PyStr (fn_arguments f))])] \<and>
            normal_form d) \<and>
         t \<noteq> Opaque"
  using assms by (cases t) (auto simp: normal_form_def)

lemma serialize_message_fields:
  assumes "serialize_message m = Inr sm"
  shows "m_role m = Some (s_role sm) \<and> s_content sm = m_content m \<and>
         s_tool_call_id sm = m_tool_call_id m \<and>
         (case m_tool_calls m of
            None \<Rightarrow> s_tool_calls sm = None
          | Some tcs \<Rightarrow> \<exists>ds. s_tool_calls sm = Some ds \<and> serialize_tool_calls tcs = Inr ds)"
  using assms by (auto simp: serialize_message_def split: option.splits sum.splits)

lemma serialize_message_calls:
  assumes "serialize_message m = Inr sm" and "m_tool_calls m = Some tcs"
  shows "\<exists>ds. s_tool_calls sm = Some ds \<and> length ds = length tcs \<and>
           (\<forall>j<length tcs. serialize_tool_call (tcs ! j) = Inr (ds ! j))"
  using assms serialize_tool_calls_nth [of tcs]
  by (auto simp: serialize_message_def split: option.splits sum.splits)

text \<open>Which messages the recorder cannot serialize, and what happens then.\<close>

lemma serialize_conversation_raises:
  "m \<in> set ms \<Longrightarrow> serialize_message m = Inl e \<Longrightarrow> \<exists>e'. serialize_conversation ms = Inl e'"
  by (induction ms) (auto split: sum.splits)

lemma serialize_tool_calls_opaque:
  "Opaque \<in> set tcs \<Longrightarrow> serialize_tool_calls tcs = Inl AttributeError"
proof (induction tcs)
  case Nil
  then show ?case by simp
next
  case (Cons t tcs)
  then show ?case by (cases t) (auto split: sum.splits)
qed

lemma serialize_tool_calls_no_opaque:
  "serialize_tool_calls tcs = Inl e \<Longrightarrow> Opaque \<in> set tcs"
proof (induction tcs)
  case Nil
  then show ?case by simp
next
  case (Cons t tcs)
  then show ?case by (cases t) (auto split: sum.splits)
qed

lemma serialize_message_raises:
  "(\<exists>e. serialize_message m = Inl e) \<longleftrightarrow>
     m_role m = None \<or> (\<exists>tcs. m_tool_calls m = Some tcs \<and> Opaque \<in> set tcs)"
  by (auto simp: serialize_message_def serialize_tool_calls_opaque
      split: option.splits sum.splits dest: serialize_tool_calls_no_opaque)

lemma log_conversation_raises:
  assumes "m \<in> set (messages s)" and "serialize_message m = Inl e"
  shows "\<exists>e'. log_conversation E s =
           (Inl e', if ''conversations'' \<in> dom (files s) then s
                    else s\<lparr>dirs := insert ''conversations'' (dirs s)\<rparr>)"
  using serialize_conversation_raises [OF assms]
  by (auto simp: log_conversation_def makedirs_def)

text \<open>A turn whose response asks for tools.\<close>

lemma query_loop_request:
  assumes "llm_create E (trace s) (messages s) (tools s) = Inr (Response (msg # others))"
    and "truthy (lm_tool_calls msg)"
  shows "query_loop E (Suc n) s =
           (case log_conversation E
                   (s\<lparr>trace := trace s @ [LLMCall (messages s) (tools s)],
                      messages := messages s @ [tool_request_message msg]\<rparr>) of
              (Inl e, s2) \<Rightarrow> (Some (Inl e), s2)
            | (Inr u, s2) \<Rightarrow>
                (case dispatch_tool_calls E s2 (the (lm_tool_calls msg)) of
                   (Inl e, s3) \<Rightarrow> (Some (Inl e), s3)
                 | (Inr u, s3) \<Rightarrow> query_loop E n s3))"
  using assms by (simp add: call_llm_def)


















text \<open>One pass through the body of the dispatch loop, and the loop as a whole.\<close>

lemma dispatch_tool_call_ok:
  assumes "dispatch_tool_call E s t = (Inr u, s')"
  shows "\<exists>name args tid a r snap.
      tool_call_attributes t = Inr (name, args, tid) \<and> json_loads E args = Inr a \<and>
      session s \<noteq> None \<and> rpc_call_tool E (trace s) name a = Inr r \<and>
      serialize_conversation (messages s @ [tool_message tid r]) = Inr snap \<and>
      messages s' = messages s @ [tool_message tid r] \<and>
      trace s' = trace s @
        [CallTool name a, Recorded (record_path (now E (trace s @ [CallTool name a]))) snap]"
proof -
  from assms obtain name args tid a r where
    attrs: "tool_call_attributes t = Inr (name, args, tid)"
    and args: "json_loads E args = Inr a" and sess: "session s \<noteq> None"
    and rpc: "rpc_call_tool E (trace s) name a = Inr r"
    and log: "log_conversation E
        (s\<lparr>trace := trace s @ [CallTool name a],
           messages := messages s @ [tool_message tid r]\<rparr>) = (Inr u, s')"
    by (auto simp: dispatch_tool_call_def Let_def split: sum.splits option.splits prod.splits)
  from log_conversation_ok [OF log] attrs args sess rpc show ?thesis
    by auto
qed

lemma log_conversation_grows:
  "prefix (trace s) (trace (snd (log_conversation E s)))"
  using log_conversation_trace [of E s "fst (log_conversation E s)" "snd (log_conversation E s)"]
  by (auto split: sum.splits)

lemma dispatch_tool_call_grows:
  assumes "dispatch_tool_call E s t = (r, s')"
  shows "prefix (messages s) (messages s') \<and> prefix (trace s) (trace s') \<and>
         session s' = session s \<and> tools s' = tools s"
proof (cases "\<exists>name args tid a res. tool_call_attributes t = Inr (name, args, tid) \<and>
    json_loads E args = Inr a \<and> session s \<noteq> None \<and>
    rpc_call_tool E (trace s) name a = Inr res")
  case True
  then obtain name args tid a res where
    "tool_call_attributes t = Inr (name, args, tid)" "json_loads E args = Inr a"
    "session s \<noteq> None" "rpc_call_tool E (trace s) name a = Inr res"
    by blast
  with assms have s': "s' = snd (log_conversation E
        (s\<lparr>trace := trace s @ [CallTool name a],
           messages := messages s @ [tool_message tid res]\<rparr>))"
    by (auto simp: dispatch_tool_call_def Let_def)
  have "prefix (trace s @ [CallTool name a]) (trace s')"
    unfolding s'
    using log_conversation_grows [of "s\<lparr>trace := trace s @ [CallTool name a],
           messages := messages s @ [tool_message tid res]\<rparr>" E]
    by simp
  then have "prefix (trace s) (trace s')"
    by (meson prefix_order.trans prefixI)
  then show ?thesis
    unfolding s' by (simp add: log_conversation_keeps)
next
  case False
  with assms show ?thesis
    by (auto simp: dispatch_tool_call_def Let_def split: sum.splits option.splits)
qed

lemma dispatch_tool_calls_grows:
  assumes "dispatch_tool_calls E s tcs = (r, s')"
  shows "prefix (messages s) (messages s') \<and> prefix (trace s) (trace s') \<and>
         session s' = session s \<and> tools s' = tools s"
  using assms
proof (induction tcs arbitrary: s)
  case Nil
  then show ?case by simp
next
  case (Cons t tcs)
  obtain r1 s1 where step: "dispatch_tool_call E s t = (r1, s1)"
    by (cases "dispatch_tool_call E s t")
  note g = dispatch_tool_call_grows [OF step]
  show ?case
  proof (cases r1)
    case (Inl e)
    with step g Cons.prems show ?thesis by auto
  next
    case (Inr u)
    with step Cons.prems have "dispatch_tool_calls E s1 tcs = (r, s')" by simp
    from Cons.IH [OF this] g show ?thesis
      by (auto intro: prefix_order.trans)
  qed
qed

lemma dispatch_tool_calls_append:
  "dispatch_tool_calls E s (pre @ post) =
     (case dispatch_tool_calls E s pre of
        (Inl e, s1) \<Rightarrow> (Inl e, s1)
      | (Inr u, s1) \<Rightarrow> dispatch_tool_calls E s1 post)"
  by (induction pre arbitrary: s) (auto split: prod.splits sum.splits)

lemma dispatch_tool_calls_ok:
  assumes "dispatch_tool_calls E s pre = (Inr u, s1)"
  shows "\<exists>rs ms tr. length rs = length pre \<and> length ms = length pre \<and>
     length tr = 2 * length pre \<and>
     messages s1 = messages s @ ms \<and> trace s1 = trace s @ tr \<and>
     (\<forall>i<length pre. \<exists>name args tid a p snap.
        tool_call_attributes (pre ! i) = Inr (name, args, tid) \<and>
        json_loads E args = Inr a \<and>
        tr ! (2 * i) = CallTool name a \<and>
        rpc_call_tool E (trace s @ take (2 * i) tr) name a = Inr (rs ! i) \<and>
        ms ! i = tool_message tid (rs ! i) \<and>
        tr ! (2 * i + 1) = Recorded p snap \<and>
        serialize_conversation (messages s @ take (i + 1) ms) = Inr snap)"
  using assms
proof (induction pre arbitrary: s)
  case Nil
  then show ?case by simp
next
  case (Cons t ts)
  from Cons.prems obtain u' s' where step: "dispatch_tool_call E s t = (Inr u', s')"
    and rest: "dispatch_tool_calls E s' ts = (Inr u, s1)"
    by (auto split: prod.splits sum.splits)
  from dispatch_tool_call_ok [OF step] obtain name0 args0 tid0 a0 r0 snap0 where
    attrs0: "tool_call_attributes t = Inr (name0, args0, tid0)"
    and args0: "json_loads E args0 = Inr a0"
    and rpc0: "rpc_call_tool E (trace s) name0 a0 = Inr r0"
    and snap0: "serialize_conversation (messages s @ [tool_message tid0 r0]) = Inr snap0"
    and m': "messages s' = messages s @ [tool_message tid0 r0]"
    and t': "trace s' = trace s @
        [CallTool name0 a0,
         Recorded (record_path (now E (trace s @ [CallTool name0 a0]))) snap0]"
    by blast
  from Cons.IH [OF rest] obtain rs ms tr where
    len: "length rs = length ts" "length ms = length ts" "length tr = 2 * length ts"
    and m1: "messages s1 = messages s' @ ms" and t1: "trace s1 = trace s' @ tr"
    and each: "\<And>i. i < length ts \<Longrightarrow> \<exists>name args tid a p snap.
        tool_call_attributes (ts ! i) = Inr (name, args, tid) \<and>
        json_loads E args = Inr a \<and>
        tr ! (2 * i) = CallTool name a \<and>
        rpc_call_tool E (trace s' @ take (2 * i) tr) name a = Inr (rs ! i) \<and>
        ms ! i = tool_message tid (rs ! i) \<and>
        tr ! (2 * i + 1) = Recorded p snap \<and>
        serialize_conversation (messages s' @ take (i + 1) ms) = Inr snap"
    by blast
  let ?rs = "r0 # rs" and ?ms = "tool_message tid0 r0 # ms"
  let ?c0 = "CallTool name0 a0"
  let ?r0 = "Recorded (record_path (now E (trace s @ [CallTool name0 a0]))) snap0"
  let ?tr = "?c0 # ?r0 # tr"
  have "\<exists>name args tid a p snap.
        tool_call_attributes ((t # ts) ! i) = Inr (name, args, tid) \<and>
        json_loads E args = Inr a \<and>
        ?tr ! (2 * i) = CallTool name a \<and>
        rpc_call_tool E (trace s @ take (2 * i) ?tr) name a = Inr (?rs ! i) \<and>
        ?ms ! i = tool_message tid (?rs ! i) \<and>
        ?tr ! (2 * i + 1) = Recorded p snap \<and>
        serialize_conversation (messages s @ take (i + 1) ?ms) = Inr snap"
    if i: "i < length (t # ts)" for i
  proof (cases i)
    case 0
    with attrs0 args0 rpc0 snap0 show ?thesis by simp
  next
    case (Suc j)
    with i have j: "j < length ts" by simp
    from each [OF j] obtain name args tid a p snap where
      "tool_call_attributes (ts ! j) = Inr (name, args, tid)"
      "json_loads E args = Inr a"
      "tr ! (2 * j) = CallTool name a"
      "rpc_call_tool E (trace s' @ take (2 * j) tr) name a = Inr (rs ! j)"
      "ms ! j = tool_message tid (rs ! j)"
      "tr ! (2 * j + 1) = Recorded p snap"
      "serialize_conversation (messages s' @ take (j + 1) ms) = Inr snap"
      by blast
    with Suc m' t' show ?thesis by simp
  qed
  moreover have "messages s1 = messages s @ ?ms" "trace s1 = trace s @ ?tr"
    using m1 t1 m' t' by simp_all
  moreover have "length ?rs = length (t # ts)" "length ?ms = length (t # ts)"
    "length ?tr = 2 * length (t # ts)"
    using len by simp_all
  ultimately show ?case by blast
qed

text \<open>The conversation and the trace only grow during the loop.\<close>

lemma query_loop_grows:
  assumes "query_loop E n s = (r, s')"
  shows "prefix (messages s) (messages s') \<and> prefix (trace s) (trace s')"
  using assms
proof (induction n arbitrary: s)
  case 0
  then show ?case by simp
next
  case (Suc n)
  let ?s1 = "s\<lparr>trace := trace s @ [LLMCall (messages s) (tools s)]\<rparr>"
  have s1: "prefix (messages s) (messages ?s1)" "prefix (trace s) (trace ?s1)"
    by simp_all
  show ?case
  proof (cases "llm_create E (trace s) (messages s) (tools s)")
    case (Inl e)
    with Suc.prems show ?thesis by (auto simp: call_llm_def)
  next
    case (Inr response)
    show ?thesis
    proof (cases response)
      case NoChoices
      with Inr Suc.prems show ?thesis by (auto simp: call_llm_def)
    next
      case (Response choices)
      show ?thesis
      proof (cases choices)
        case Nil
        with Inr Response Suc.prems show ?thesis by (auto simp: call_llm_def)
      next
        case (Cons msg others)
        note llm = Inr [unfolded Response Cons]
        show ?thesis
        proof (cases "truthy (lm_tool_calls msg)")
          case False
          let ?s2 = "s\<lparr>trace := trace s @ [LLMCall (messages s) (tools s)],
                        messages := messages s @ [final_message msg]\<rparr>"
          from query_loop_final [OF llm False, of n] Suc.prems
          have s': "s' = snd (log_conversation E ?s2)"
            by (auto split: prod.splits sum.splits)
          have "prefix (trace ?s2) (trace s')"
            unfolding s' by (rule log_conversation_grows)
          then have "prefix (trace s) (trace s')"
            by (simp add: append_prefixD)
          then show ?thesis unfolding s' by (simp add: log_conversation_keeps)
        next
          case True
          let ?s2 = "s\<lparr>trace := trace s @ [LLMCall (messages s) (tools s)],
                        messages := messages s @ [tool_request_message msg]\<rparr>"
          obtain r2 s3 where log: "log_conversation E ?s2 = (r2, s3)"
            by (cases "log_conversation E ?s2")
          have m3: "messages s3 = messages s @ [tool_request_message msg]"
            using log_conversation_keeps(1) [of E ?s2] log by simp
          have "prefix (trace ?s2) (trace s3)"
            using log_conversation_grows [of ?s2 E] log by simp
          then have t3: "prefix (trace s) (trace s3)"
            by (simp add: append_prefixD)
          note loop = query_loop_request [OF llm True, of n, unfolded log]
          show ?thesis
          proof (cases r2)
            case (Inl e)
            with loop Suc.prems m3 t3 show ?thesis by auto
          next
            case (Inr u)
            obtain r4 s4 where disp:
              "dispatch_tool_calls E s3 (the (lm_tool_calls msg)) = (r4, s4)"
              by (cases "dispatch_tool_calls E s3 (the (lm_tool_calls msg))")
            from dispatch_tool_calls_grows [OF disp] m3 t3
            have g4: "prefix (messages s) (messages s4)" "prefix (trace s) (trace s4)"
              by (auto intro: prefix_order.trans simp: append_prefixD)
            show ?thesis
            proof (cases r4)
              case (Inl e)
              with loop Inr disp Suc.prems g4 show ?thesis by auto
            next
              case (Inr u')
              with loop \<open>r2 = Inr u\<close> disp Suc.prems
              have "query_loop E n s4 = (r, s')" by simp
              from Suc.IH [OF this] g4 show ?thesis
                by (auto intro: prefix_order.trans)
            qed
          qed
        qed
      qed
    qed
  qed
qed

lemma query_loop_mono:
  "prefix (messages (snd (query_loop E n s))) (messages (snd (query_loop E (n + k) s)))"
proof (cases "query_loop E n s")
  case (Pair r s')
  show ?thesis
  proof (cases r)
    case None
    with Pair query_loop_grows [of E k s' "fst (query_loop E k s')" "snd (query_loop E k s')"]
    show ?thesis by (simp add: query_loop_add)
  next
    case (Some a)
    with Pair show ?thesis by (simp add: query_loop_add)
  qed
qed

lemma process_query_messages:
  "messages (snd (process_query E n s q)) =
     messages (snd (query_loop E n (s\<lparr>messages := [user_message q]\<rparr>)))"
  by (simp add: process_query_def split: prod.splits option.splits sum.splits)

section \<open>Claims\<close>

text \<open>
  C1. At the head of any turn of \<^verbatim>\<open>process_query\<close>, let the model ask for the batch
  \<open>pre @ post\<close> of tool calls, let the assistant message carrying the batch be recorded
  (state \<open>s1\<close>), and let the calls of \<open>pre\<close> go through the \<^verbatim>\<open>for\<close> loop without error
  (state \<open>s2\<close>). Then the conversation is the one before the turn, the assistant
  message, and exactly one message per call of \<open>pre\<close>; the trace was extended by the LLM
  call, the record of the assistant message, and exactly two events per call. For the
  call at position \<open>i\<close>, event \<open>2i\<close> is the RPC \<^verbatim>\<open>call_tool\<close> with the name of the call and
  its parsed arguments, issued after all events of the earlier calls; message \<open>i\<close> is the
  tool-role message with the id of the call as \<^verbatim>\<open>tool_call_id\<close> and the content of the
  result of that RPC as \<^verbatim>\<open>content\<close>; and event \<open>2i + 1\<close> is the record of the
  conversation up to and including message \<open>i\<close>, so the record of call \<open>i\<close> precedes the
  RPC of call \<open>i + 1\<close>. Whatever \<^verbatim>\<open>process_query\<close> does afterwards, these messages and
  events stay at the front of its conversation and trace. When \<open>pre\<close> is the whole
  batch, \<^verbatim>\<open>process_query\<close> is at the head of its loop again, in state \<open>s2\<close>. When the RPC
  of the next call \<open>t\<close> succeeds, exactly one tool message for \<open>t\<close> is appended and the
  recorder is invoked on the extended conversation at once; its outcome is the outcome
  of the batch up to \<open>t\<close>.
\<close>

theorem sequential_dispatch:
  assumes "process_query E k s q = (None, s0)"
    and "llm_create E (trace s0) (messages s0) (tools s0) = Inr (Response (msg # others))"
    and "lm_tool_calls msg = Some (pre @ post)" and "pre @ post \<noteq> []"
    and "log_conversation E
           (s0\<lparr>trace := trace s0 @ [LLMCall (messages s0) (tools s0)],
               messages := messages s0 @ [tool_request_message msg]\<rparr>) = (Inr u, s1)"
    and "dispatch_tool_calls E s1 pre = (Inr u', s2)"
  shows "\<exists>rs ms tr p0 snap0. length rs = length pre \<and> length ms = length pre \<and>
     length tr = 2 * length pre \<and>
     messages s2 = messages s0 @ tool_request_message msg # ms \<and>
     m_tool_calls (tool_request_message msg) = Some (pre @ post) \<and>
     trace s1 = trace s0 @ [LLMCall (messages s0) (tools s0), Recorded p0 snap0] \<and>
     trace s2 = trace s1 @ tr \<and>
     (\<forall>i<length pre. \<exists>name args tid a p snap.
        tool_call_attributes (pre ! i) = Inr (name, args, tid) \<and>
        json_loads E args = Inr a \<and>
        tr ! (2 * i) = CallTool name a \<and>
        rpc_call_tool E (trace s1 @ take (2 * i) tr) name a = Inr (rs ! i) \<and>
        ms ! i = \<lparr>m_role = Some ''tool'', m_content = Some (ctr_content (rs ! i)),
                  m_tool_calls = None, m_tool_call_id = Some tid\<rparr> \<and>
        tr ! (2 * i + 1) = Recorded p snap \<and>
        serialize_conversation
          (messages s0 @ tool_request_message msg # take (i + 1) ms) = Inr snap) \<and>
     (\<forall>n. prefix (messages s2) (messages (snd (process_query E (Suc k + n) s q))) \<and>
          prefix (trace s2) (trace (snd (process_query E (Suc k + n) s q)))) \<and>
     (post = [] \<longrightarrow> process_query E (Suc k) s q = (None, s2)) \<and>
     (\<forall>t rest name args tid a r.
        post = t # rest \<and>
        tool_call_attributes t = Inr (name, args, tid) \<and> json_loads E args = Inr a \<and>
        session s2 \<noteq> None \<and> rpc_call_tool E (trace s2) name a = Inr r \<longrightarrow>
        dispatch_tool_calls E s1 (pre @ [t]) =
          log_conversation E
            (s2\<lparr>trace := trace s2 @ [CallTool name a],
                messages := messages s2 @
                  [\<lparr>m_role = Some ''tool'', m_content = Some (ctr_content r),
                    m_tool_calls = None, m_tool_call_id = Some tid\<rparr>]\<rparr>))"
proof -
  let ?a = "s0\<lparr>trace := trace s0 @ [LLMCall (messages s0) (tools s0)],
               messages := messages s0 @ [tool_request_message msg]\<rparr>"
  have m1: "messages s1 = messages s0 @ [tool_request_message msg]"
    using log_conversation_keeps(1) [of E ?a] assms(5) by simp
  from log_conversation_ok [OF assms(5)] obtain p0 snap0 where
    t1: "trace s1 = trace s0 @ [LLMCall (messages s0) (tools s0), Recorded p0 snap0]"
    by auto
  have calls: "m_tool_calls (tool_request_message msg) = Some (pre @ post)"
    using assms(3) by (simp add: tool_request_message_def)
  have truthy: "truthy (lm_tool_calls msg)"
    using assms(3,4) by simp
  obtain r3 s3 where rest: "dispatch_tool_calls E s2 post = (r3, s3)"
    by (cases "dispatch_tool_calls E s2 post")
  have batch: "dispatch_tool_calls E s1 (pre @ post) = (r3, s3)"
    using assms(6) rest by (simp add: dispatch_tool_calls_append)
  note g3 = dispatch_tool_calls_grows [OF rest]
  have loop: "query_loop E (Suc n) s0 =
      (case r3 of Inl e \<Rightarrow> (Some (Inl e), s3) | Inr v \<Rightarrow> query_loop E n s3)" for n
    using query_loop_request [OF assms(2) truthy, of n] assms(3,5) batch
    by (simp split: sum.splits)
  have grow: "prefix (messages s2) (messages (snd (process_query E (Suc k + n) s q))) \<and>
          prefix (trace s2) (trace (snd (process_query E (Suc k + n) s q)))" for n
  proof -
    have eq: "Suc k + n = k + Suc n" by simp
    have "prefix (messages s3) (messages (snd (query_loop E (Suc n) s0))) \<and>
        prefix (trace s3) (trace (snd (query_loop E (Suc n) s0)))"
    proof (cases r3)
      case (Inl e)
      with loop [of n] show ?thesis by simp
    next
      case (Inr v)
      with loop [of n] query_loop_grows [of E n s3 "fst (query_loop E n s3)"
          "snd (query_loop E n s3)"]
      show ?thesis by simp
    qed
    moreover have "snd (process_query E (Suc k + n) s q) = snd (query_loop E (Suc n) s0)"
      unfolding eq process_query_continue [OF assms(1), of "Suc n"]
      by (simp split: prod.splits option.splits sum.splits)
    ultimately show ?thesis
      using g3 by (auto intro: prefix_order.trans)
  qed
  have again: "process_query E (Suc k) s q = (None, s2)" if "post = []"
  proof -
    from that rest have "r3 = Inr ()" "s3 = s2" by simp_all
    with loop [of 0] have "query_loop E (Suc 0) s0 = (None, s2)" by simp
    moreover have "Suc k = k + Suc 0" by simp
    ultimately show ?thesis
      using process_query_continue [OF assms(1), of "Suc 0"] by simp
  qed
  have nxt: "dispatch_tool_calls E s1 (pre @ [t]) =
          log_conversation E
            (s2\<lparr>trace := trace s2 @ [CallTool name a],
                messages := messages s2 @
                  [\<lparr>m_role = Some ''tool'', m_content = Some (ctr_content r),
                    m_tool_calls = None, m_tool_call_id = Some tid\<rparr>]\<rparr>)"
    if "post = t # rest \<and>
        tool_call_attributes t = Inr (name, args, tid) \<and> json_loads E args = Inr a \<and>
        session s2 \<noteq> None \<and> rpc_call_tool E (trace s2) name a = Inr r"
    for t rest name args tid a r
  proof -
    from that have "dispatch_tool_call E s2 t =
          log_conversation E
            (s2\<lparr>trace := trace s2 @ [CallTool name a],
                messages := messages s2 @ [tool_message tid r]\<rparr>)"
      by (auto simp: dispatch_tool_call_def Let_def)
    with assms(6) show ?thesis
      by (simp add: dispatch_tool_calls_append tool_message_def
          split: prod.splits sum.splits)
  qed
  from dispatch_tool_calls_ok [OF assms(6)] obtain rs ms tr where
    len: "length rs = length pre" "length ms = length pre" "length tr = 2 * length pre"
    and m2: "messages s2 = messages s1 @ ms" and t2: "trace s2 = trace s1 @ tr"
    and each: "\<forall>i<length pre. \<exists>name args tid a p snap.
        tool_call_attributes (pre ! i) = Inr (name, args, tid) \<and>
        json_loads E args = Inr a \<and>
        tr ! (2 * i) = CallTool name a \<and>
        rpc_call_tool E (trace s1 @ take (2 * i) tr) name a = Inr (rs ! i) \<and>
        ms ! i = tool_message tid (rs ! i) \<and>
        tr ! (2 * i + 1) = Recorded p snap \<and>
        serialize_conversation (messages s1 @ take (i + 1) ms) = Inr snap"
    by blast
  from each have each': "\<forall>i<length pre. \<exists>name args tid a p snap.
        tool_call_attributes (pre ! i) = Inr (name, args, tid) \<and>
        json_loads E args = Inr a \<and>
        tr ! (2 * i) = CallTool name a \<and>
        rpc_call_tool E (trace s1 @ take (2 * i) tr) name a = Inr (rs ! i) \<and>
        ms ! i = \<lparr>m_role = Some ''tool'', m_content = Some (ctr_content (rs ! i)),
                  m_tool_calls = None, m_tool_call_id = Some tid\<rparr> \<and>
        tr ! (2 * i + 1) = Recorded p snap \<and>
        serialize_conversation
          (messages s0 @ tool_request_message msg # take (i + 1) ms) = Inr snap"
    unfolding tool_message_def m1 by simp
  have m2': "messages s2 = messages s0 @ tool_request_message msg # ms"
    using m2 m1 by simp
  show ?thesis
    using len m2' calls t1 t2 each' grow again nxt by blast
qed

text \<open>
  The model asks for \<^verbatim>\<open>get_weather\<close> twice in its first turn: after the turn the
  conversation holds the two results in the order of the calls, and in the trace every
  call is followed by its record.
\<close>

theorem sequential_dispatch_witness:
  "lm_tool_calls two_calls_request = Some ([weather_call, second_weather_call] @ []) \<and>
   fst (process_query two_calls_env 1 connected ''weather?'') = None \<and>
   messages (snd (process_query two_calls_env 1 connected ''weather?'')) =
     [user_message ''weather?'', tool_request_message two_calls_request,
      tool_message ''call_1'' weather_result, tool_message ''call_3'' weather_result] \<and>
   (\<exists>p0 c0 p1 c1 p2 c2.
      trace (snd (process_query two_calls_env 1 connected ''weather?'')) =
        trace connected @
        [LLMCall [user_message ''weather?''] (tools connected), Recorded p0 c0,
         CallTool ''get_weather'' (PyDict []), Recorded p1 c1,
         CallTool ''get_weather'' (PyDict []), Recorded p2 c2])"
proof -
  let ?q = "''weather?''"
  let ?pre = "[weather_call, second_weather_call]"
  let ?a = "connected\<lparr>messages := [user_message ?q]\<rparr>"
  let ?b = "snd (log_conversation two_calls_env
      (?a\<lparr>trace := trace ?a @ [LLMCall (messages ?a) (tools ?a)],
          messages := messages ?a @ [tool_request_message two_calls_request]\<rparr>))"
  let ?c = "snd (dispatch_tool_calls two_calls_env ?b ?pre)"
  note defs = dispatch_tool_call_def log_conversation_def makedirs_def write_json_def
        connected_def fresh_def two_calls_env_def demo_env_def weather_call_def
        second_weather_call_def two_calls_request_def user_message_def
        tool_request_message_def tool_message_def weather_result_def serialize_message_def
        record_path_def
  have a1: "process_query two_calls_env 0 connected ?q = (None, ?a)"
    by (rule process_query_start)
  have a2: "llm_create two_calls_env (trace ?a) (messages ?a) (tools ?a) =
      Inr (Response (two_calls_request # []))"
    by (simp add: two_calls_env_def)
  have a3: "lm_tool_calls two_calls_request = Some (?pre @ [])"
    by (simp add: two_calls_request_def)
  have a4: "?pre @ [] \<noteq> []" by simp
  have a5: "log_conversation two_calls_env
      (?a\<lparr>trace := trace ?a @ [LLMCall (messages ?a) (tools ?a)],
          messages := messages ?a @ [tool_request_message two_calls_request]\<rparr>) =
      (Inr (), ?b)"
    by (simp add: defs)
  have a6: "dispatch_tool_calls two_calls_env ?b ?pre = (Inr (), ?c)"
    by (simp add: defs)
  from sequential_dispatch [OF a1 a2 a3 a4 a5 a6]
  have pq: "process_query two_calls_env (Suc 0) connected ?q = (None, ?c)"
    by blast
  have mc: "messages ?c = [user_message ?q, tool_request_message two_calls_request,
      tool_message ''call_1'' weather_result, tool_message ''call_3'' weather_result]"
    by (simp add: defs)
  have tc: "\<exists>p0 c0 p1 c1 p2 c2. trace ?c = trace connected @
        [LLMCall [user_message ?q] (tools connected), Recorded p0 c0,
         CallTool ''get_weather'' (PyDict []), Recorded p1 c1,
         CallTool ''get_weather'' (PyDict []), Recorded p2 c2]"
    by (simp add: defs)
  from pq mc tc a3 show ?thesis by simp
qed

text \<open>
  C2. At the head of any turn of \<^verbatim>\<open>process_query\<close>, let the model ask for the batch
  \<open>pre @ t # post\<close>, let the assistant message be recorded, and let the calls of \<open>pre\<close> go
  through, leading to state \<open>s2\<close>. If then the arguments of \<open>t\<close> do not parse, or
  \<^verbatim>\<open>call_tool\<close> for \<open>t\<close> fails, or there is no session to call, \<^verbatim>\<open>process_query\<close> raises
  that error. The state it leaves is \<open>s2\<close> with at most the one failed RPC added to the
  trace: no call of \<open>post\<close> is made, \<open>t\<close> is not tried again, and the conversation is
  still the one before the turn followed by the assistant message and the tool results
  of \<open>pre\<close>.
\<close>

theorem fail_fast:
  assumes "process_query E k s q = (None, s0)"
    and "llm_create E (trace s0) (messages s0) (tools s0) = Inr (Response (msg # others))"
    and "lm_tool_calls msg = Some (pre @ t # post)"
    and "log_conversation E
           (s0\<lparr>trace := trace s0 @ [LLMCall (messages s0) (tools s0)],
               messages := messages s0 @ [tool_request_message msg]\<rparr>) = (Inr u, s1)"
    and "dispatch_tool_calls E s1 pre = (Inr u', s2)"
    and "tool_call_attributes t = Inr (name, args, tid)"
    and "json_loads E args = Inl e \<or>
         (\<exists>a. json_loads E args = Inr a \<and> session s2 \<noteq> None \<and>
              rpc_call_tool E (trace s2) name a = Inl e) \<or>
         (\<exists>a. json_loads E args = Inr a \<and> session s2 = None \<and> e = AttributeError)"
  shows "\<exists>calls ms.
      process_query E (Suc k + n) s q = (Some (Inl e), s2\<lparr>trace := trace s2 @ calls\<rparr>) \<and>
      (calls = [] \<or> (\<exists>a. calls = [CallTool name a])) \<and>
      length ms = length pre \<and>
      messages s2 = messages s0 @ tool_request_message msg # ms"
proof -
  have "\<exists>calls. dispatch_tool_call E s2 t = (Inl e, s2\<lparr>trace := trace s2 @ calls\<rparr>) \<and>
      (calls = [] \<or> (\<exists>a. calls = [CallTool name a]))"
    using assms(7)
  proof (elim disjE exE conjE)
    assume "json_loads E args = Inl e"
    with assms(6) have "dispatch_tool_call E s2 t = (Inl e, s2\<lparr>trace := trace s2 @ []\<rparr>)"
      by (simp add: dispatch_tool_call_def)
    then show ?thesis by blast
  next
    fix a
    assume "json_loads E args = Inr a" "session s2 \<noteq> None"
      "rpc_call_tool E (trace s2) name a = Inl e"
    with assms(6)
    have "dispatch_tool_call E s2 t = (Inl e, s2\<lparr>trace := trace s2 @ [CallTool name a]\<rparr>)"
      by (auto simp: dispatch_tool_call_def)
    then show ?thesis by blast
  next
    fix a
    assume "json_loads E args = Inr a" "session s2 = None" "e = AttributeError"
    with assms(6) have "dispatch_tool_call E s2 t = (Inl e, s2\<lparr>trace := trace s2 @ []\<rparr>)"
      by (simp add: dispatch_tool_call_def)
    then show ?thesis by blast
  qed
  then obtain calls where
    step: "dispatch_tool_call E s2 t = (Inl e, s2\<lparr>trace := trace s2 @ calls\<rparr>)"
    and calls: "calls = [] \<or> (\<exists>a. calls = [CallTool name a])"
    by blast
  have batch: "dispatch_tool_calls E s1 (pre @ t # post) =
      (Inl e, s2\<lparr>trace := trace s2 @ calls\<rparr>)"
    using assms(5) step by (simp add: dispatch_tool_calls_append)
  have "truthy (lm_tool_calls msg)"
    using assms(3) by simp
  from query_loop_request [OF assms(2) this, of n] assms(3,4) batch
  have "query_loop E (Suc n) s0 = (Some (Inl e), s2\<lparr>trace := trace s2 @ calls\<rparr>)"
    by simp
  moreover have "Suc k + n = k + Suc n" by simp
  ultimately have pq: "process_query E (Suc k + n) s q =
      (Some (Inl e), s2\<lparr>trace := trace s2 @ calls\<rparr>)"
    using process_query_continue [OF assms(1), of "Suc n"] by simp
  have m1: "messages s1 = messages s0 @ [tool_request_message msg]"
    using log_conversation_keeps(1) [of E "s0\<lparr>trace := trace s0 @ [LLMCall (messages s0) (tools s0)],
               messages := messages s0 @ [tool_request_message msg]\<rparr>"] assms(4)
    by simp
  from dispatch_tool_calls_ok [OF assms(5)] obtain ms where
    "length ms = length pre" "messages s2 = messages s1 @ ms"
    by blast
  with m1 pq calls show ?thesis by auto
qed

text \<open>
  The model asks for \<^verbatim>\<open>get_weather\<close>, \<^verbatim>\<open>get_time\<close> and \<^verbatim>\<open>get_weather\<close>; the server does not
  know \<^verbatim>\<open>get_time\<close>. The query raises, and the conversation holds the user message, the
  assistant message and the result of the first call.
\<close>

theorem fail_fast_witness:
  "lm_tool_calls three_calls_request = Some ([weather_call] @ time_call # [second_weather_call]) \<and>
   tool_call_attributes time_call = Inr (''get_time'', ''{}'', ''call_2'') \<and>
   json_loads batch_env ''{}'' = Inr (PyDict []) \<and>
   fst (process_query batch_env 1 connected ''weather?'') =
     Some (Inl (ExternalError ''unknown tool'')) \<and>
   messages (snd (process_query batch_env 1 connected ''weather?'')) =
     [user_message ''weather?'', tool_request_message three_calls_request,
      tool_message ''call_1'' weather_result]"
proof -
  let ?q = "''weather?''"
  let ?a = "connected\<lparr>messages := [user_message ?q]\<rparr>"
  let ?b = "snd (log_conversation batch_env
      (?a\<lparr>trace := trace ?a @ [LLMCall (messages ?a) (tools ?a)],
          messages := messages ?a @ [tool_request_message three_calls_request]\<rparr>))"
  let ?c = "snd (dispatch_tool_calls batch_env ?b [weather_call])"
  note defs = dispatch_tool_call_def log_conversation_def makedirs_def write_json_def
        connected_def fresh_def batch_env_def demo_env_def weather_call_def
        second_weather_call_def three_calls_request_def time_call_def user_message_def
        tool_request_message_def tool_message_def weather_result_def serialize_message_def
        record_path_def
  have a1: "process_query batch_env 0 connected ?q = (None, ?a)"
    by (rule process_query_start)
  have a2: "llm_create batch_env (trace ?a) (messages ?a) (tools ?a) =
      Inr (Response (three_calls_request # []))"
    by (simp add: batch_env_def)
  have a3: "lm_tool_calls three_calls_request =
      Some ([weather_call] @ time_call # [second_weather_call])"
    by (simp add: three_calls_request_def)
  have a4: "log_conversation batch_env
      (?a\<lparr>trace := trace ?a @ [LLMCall (messages ?a) (tools ?a)],
          messages := messages ?a @ [tool_request_message three_calls_request]\<rparr>) =
      (Inr (), ?b)"
    by (simp add: defs)
  have a5: "dispatch_tool_calls batch_env ?b [weather_call] = (Inr (), ?c)"
    by (simp add: defs)
  have a6: "tool_call_attributes time_call = Inr (''get_time'', ''{}'', ''call_2'')"
    by (simp add: time_call_def)
  have j: "json_loads batch_env ''{}'' = Inr (PyDict [])"
    by (simp add: batch_env_def demo_env_def)
  have sess: "session ?c \<noteq> None"
    by (simp add: defs)
  have rpc: "rpc_call_tool batch_env (trace ?c) ''get_time'' (PyDict []) =
      Inl (ExternalError ''unknown tool'')"
    by (simp add: batch_env_def demo_env_def)
  from j sess rpc have a7: "json_loads batch_env ''{}'' = Inl (ExternalError ''unknown tool'') \<or>
         (\<exists>a. json_loads batch_env ''{}'' = Inr a \<and> session ?c \<noteq> None \<and>
              rpc_call_tool batch_env (trace ?c) ''get_time'' a =
                Inl (ExternalError ''unknown tool'')) \<or>
         (\<exists>a. json_loads batch_env ''{}'' = Inr a \<and> session ?c = None \<and>
              ExternalError ''unknown tool'' = AttributeError)"
    by blast
  from fail_fast [OF a1 a2 a3 a4 a5 a6 a7, of 0] obtain calls where
    pq: "process_query batch_env (Suc 0 + 0) connected ?q =
      (Some (Inl (ExternalError ''unknown tool'')), ?c\<lparr>trace := trace ?c @ calls\<rparr>)"
    by blast
  have mc: "messages ?c = [user_message ?q, tool_request_message three_calls_request,
      tool_message ''call_1'' weather_result]"
    by (simp add: defs)
  from pq mc a3 a6 j show ?thesis by simp
qed

text \<open>
  C3 (as amended). When the first response of the model has a first choice whose
  message carries no tool requests, \<^verbatim>\<open>process_query\<close> makes exactly one LLM call and the
  conversation becomes exactly two messages: the user message with the query, then one
  assistant message with the response text; no tool-role message. The recorder is then
  invoked once on this conversation: if the record is written, \<^verbatim>\<open>process_query\<close>
  returns the two messages; if the recorder raises, \<^verbatim>\<open>process_query\<close> raises that error.
  Any fuel of at least one turn gives this result.
\<close>

theorem final_answer_turn:
  assumes "llm_create E (trace s) [user_message q] (tools s) = Inr (Response (msg # others))"
    and "\<not> truthy (lm_tool_calls msg)"
  shows "\<exists>r s'.
      log_conversation E
        (s\<lparr>trace := trace s @ [LLMCall [user_message q] (tools s)],
           messages := [user_message q, final_message msg]\<rparr>) = (r, s') \<and>
      process_query E (Suc n) s q =
        (case r of Inl e \<Rightarrow> Some (Inl e)
         | Inr u \<Rightarrow> Some (Inr [user_message q, final_message msg]), s') \<and>
      messages s' = [user_message q, final_message msg] \<and>
      m_role (user_message q) = Some ''user'' \<and>
      m_content (user_message q) = Some (PyStr q) \<and>
      m_role (final_message msg) = Some ''assistant'' \<and>
      m_content (final_message msg) = Some (lm_content msg) \<and>
      (case r of
         Inl e \<Rightarrow> trace s' = trace s @ [LLMCall [user_message q] (tools s)]
       | Inr u \<Rightarrow> \<exists>p snap.
           trace s' = trace s @ [LLMCall [user_message q] (tools s), Recorded p snap])"
proof -
  let ?s1 = "s\<lparr>trace := trace s @ [LLMCall [user_message q] (tools s)],
                messages := [user_message q, final_message msg]\<rparr>"
  obtain r s' where log: "log_conversation E ?s1 = (r, s')"
    by (cases "log_conversation E ?s1")
  have loop: "query_loop E (Suc n) (s\<lparr>messages := [user_message q]\<rparr>) =
      (case r of Inl e \<Rightarrow> Some (Inl e) | Inr u \<Rightarrow> Some (Inr ()), s')"
    using query_loop_final [of E "s\<lparr>messages := [user_message q]\<rparr>" msg others n] assms log
    by (simp split: sum.splits)
  have msgs: "messages s' = [user_message q, final_message msg]"
    using log_conversation_keeps(1) [of E ?s1] log by simp
  have pq: "process_query E (Suc n) s q =
      (case r of Inl e \<Rightarrow> Some (Inl e)
       | Inr u \<Rightarrow> Some (Inr [user_message q, final_message msg]), s')"
    unfolding process_query_def loop using msgs by (simp split: sum.splits)
  have tr: "(case r of
         Inl e \<Rightarrow> trace s' = trace s @ [LLMCall [user_message q] (tools s)]
       | Inr u \<Rightarrow> \<exists>p snap.
           trace s' = trace s @ [LLMCall [user_message q] (tools s), Recorded p snap])"
    using log_conversation_trace [OF log] by (simp split: sum.splits)
  show ?thesis
    using log pq msgs tr by (simp add: user_message_def final_message_def)
qed

text \<open>
  The same query where \<^verbatim>\<open>conversations\<close> exists as a regular file: \<^verbatim>\<open>os.makedirs\<close>
  raises, and \<^verbatim>\<open>process_query\<close> raises instead of returning the two messages.
\<close>

theorem final_answer_counterexample:
  "llm_create final_env (trace blocked) [user_message ''2+2?''] (tools blocked) =
     Inr (Response [four]) \<and>
   lm_tool_calls four = None \<and>
   fst (process_query final_env 1 blocked ''2+2?'') = Some (Inl FileExistsError)"
  by (simp add: process_query_def call_llm_def final_env_def demo_env_def blocked_def
     connected_def fresh_def log_conversation_def makedirs_def four_def)

text \<open>The scenario of the specification: the query \<^verbatim>\<open>2+2?\<close> is answered \<^verbatim>\<open>4\<close>.\<close>

theorem final_answer_turn_witness:
  "llm_create final_env (trace connected) [user_message ''2+2?''] (tools connected) =
     Inr (Response [four]) \<and>
   \<not> truthy (lm_tool_calls four) \<and>
   fst (process_query final_env 1 connected ''2+2?'') =
     Some (Inr [user_message ''2+2?'', final_message four])"
proof -
  have a: "llm_create final_env (trace connected) [user_message ''2+2?''] (tools connected) =
     Inr (Response (four # []))"
    by (simp add: final_env_def)
  have b: "\<not> truthy (lm_tool_calls four)" by (simp add: four_def)
  have c: "fst (log_conversation final_env
        (connected\<lparr>trace := trace connected @ [LLMCall [user_message ''2+2?''] (tools connected)],
           messages := [user_message ''2+2?'', final_message four]\<rparr>)) = Inr ()"
    by (simp add: log_conversation_def makedirs_def write_json_def connected_def fresh_def
        user_message_def final_message_def serialize_message_def record_path_def)
  show ?thesis
    using a b c final_answer_turn [OF a b, of 0] by auto
qed



text \<open>
  C5 (as amended). When the recorder succeeds, the record written holds one serialized
  message per message of the conversation, in order. Each serialized message has the
  role of its message; it has \<^verbatim>\<open>content\<close> exactly when the message has the key, with the
  same value; it has \<^verbatim>\<open>tool_call_id\<close> exactly when the message carries one, whatever
  its role; it has \<^verbatim>\<open>tool_calls\<close> exactly when the message has them, one entry per
  tool call in order, where an object with \<^verbatim>\<open>to_dict\<close> is recorded as the result of
  \<^verbatim>\<open>to_dict\<close>, a dictionary is recorded unchanged, and any other object is recorded as
  \<^verbatim>\<open>{id, function: {name, arguments}}\<close> built from its attributes.
\<close>

theorem recorded_message_fields:
  assumes "log_conversation E s = (Inr u, s')"
  shows "\<exists>snap. files s' (record_path (now E (trace s))) = Some snap \<and>
     length snap = length (messages s) \<and>
     (\<forall>i<length (messages s).
        m_role (messages s ! i) = Some (s_role (snap ! i)) \<and>
        s_content (snap ! i) = m_content (messages s ! i) \<and>
        s_tool_call_id (snap ! i) = m_tool_call_id (messages s ! i) \<and>
        (m_tool_calls (messages s ! i) = None \<longrightarrow> s_tool_calls (snap ! i) = None) \<and>
        (\<forall>tcs. m_tool_calls (messages s ! i) = Some tcs \<longrightarrow>
           (\<exists>ds. s_tool_calls (snap ! i) = Some ds \<and> length ds = length tcs \<and>
              (\<forall>j<length tcs.
                 (\<forall>c f dict. tcs ! j = Structured c f dict \<longrightarrow> ds ! j = dict) \<and>
                 (\<forall>kvs. tcs ! j = Mapping kvs \<longrightarrow> ds ! j = PyDict kvs) \<and>
                 (\<forall>c f. tcs ! j = Plain c f \<longrightarrow>
                    ds ! j = PyDict [(''id'', PyStr c),
                               (''function'', PyDict [(''name'', PyStr (fn_name f)),
                                                (''arguments'', PyStr (fn_arguments f))])] \<and>
                    normal_form (ds ! j)) \<and>
                 tcs ! j \<noteq> Opaque))))"
proof -
  from log_conversation_ok [OF assms] obtain snap where
    snap: "serialize_conversation (messages s) = Inr snap"
    and written: "files s' (record_path (now E (trace s))) = Some snap"
    by auto
  note nth = serialize_conversation_nth [OF snap]
  have "m_role (messages s ! i) = Some (s_role (snap ! i)) \<and>
        s_content (snap ! i) = m_content (messages s ! i) \<and>
        s_tool_call_id (snap ! i) = m_tool_call_id (messages s ! i) \<and>
        (m_tool_calls (messages s ! i) = None \<longrightarrow> s_tool_calls (snap ! i) = None) \<and>
        (\<forall>tcs. m_tool_calls (messages s ! i) = Some tcs \<longrightarrow>
           (\<exists>ds. s_tool_calls (snap ! i) = Some ds \<and> length ds = length tcs \<and>
              (\<forall>j<length tcs.
                 (\<forall>c f dict. tcs ! j = Structured c f dict \<longrightarrow> ds ! j = dict) \<and>
                 (\<forall>kvs. tcs ! j = Mapping kvs \<longrightarrow> ds ! j = PyDict kvs) \<and>
                 (\<forall>c f. tcs ! j = Plain c f \<longrightarrow>
                    ds ! j = PyDict [(''id'', PyStr c),
                               (''function'', PyDict [(''name'', PyStr (fn_name f)),
                                                (''arguments'', PyStr (fn_arguments f))])] \<and>
                    normal_form (ds ! j)) \<and>
                 tcs ! j \<noteq> Opaque)))"
    if i: "i < length (messages s)" for i
  proof -
    from nth i have sm: "serialize_message (messages s ! i) = Inr (snap ! i)" by simp
    have calls: "\<exists>ds. s_tool_calls (snap ! i) = Some ds \<and> length ds = length tcs \<and>
              (\<forall>j<length tcs.
                 (\<forall>c f dict. tcs ! j = Structured c f dict \<longrightarrow> ds ! j = dict) \<and>
                 (\<forall>kvs. tcs ! j = Mapping kvs \<longrightarrow> ds ! j = PyDict kvs) \<and>
                 (\<forall>c f. tcs ! j = Plain c f \<longrightarrow>
                    ds ! j = PyDict [(''id'', PyStr c),
                               (''function'', PyDict [(''name'', PyStr (fn_name f)),
                                                (''arguments'', PyStr (fn_arguments f))])] \<and>
                    normal_form (ds ! j)) \<and>
                 tcs ! j \<noteq> Opaque)"
      if tcs: "m_tool_calls (messages s ! i) = Some tcs" for tcs
    proof -
      from serialize_message_calls [OF sm tcs] obtain ds where
        ds: "s_tool_calls (snap ! i) = Some ds" "length ds = length tcs"
        and each: "\<forall>j<length tcs. serialize_tool_call (tcs ! j) = Inr (ds ! j)"
        by blast
      from each have "\<forall>j<length tcs.
                 (\<forall>c f dict. tcs ! j = Structured c f dict \<longrightarrow> ds ! j = dict) \<and>
                 (\<forall>kvs. tcs ! j = Mapping kvs \<longrightarrow> ds ! j = PyDict kvs) \<and>
                 (\<forall>c f. tcs ! j = Plain c f \<longrightarrow>
                    ds ! j = PyDict [(''id'', PyStr c),
                               (''function'', PyDict [(''name'', PyStr (fn_name f)),
                                                (''arguments'', PyStr (fn_arguments f))])] \<and>
                    normal_form (ds ! j)) \<and>
                 tcs ! j \<noteq> Opaque"
        using serialize_tool_call_forms by blast
      with ds show ?thesis by blast
    qed
    from serialize_message_fields [OF sm] calls show ?thesis
      by (auto split: option.splits)
  qed
  with written nth show ?thesis by blast
qed

text \<open>
  A flat dictionary \<^verbatim>\<open>{id, name, arguments}\<close> is written as it is, not in the shape
  \<^verbatim>\<open>{id, function: {name, arguments}}\<close>, and the \<^verbatim>\<open>tool_call_id\<close> of an assistant
  message is written too.
\<close>

theorem recorded_flat_mapping_counterexample:
  "fst (log_conversation demo_env flat_state) = Inr () \<and>
   messages flat_state ! 1 =
     \<lparr>m_role = Some ''assistant'', m_content = Some PyNone,
      m_tool_calls = Some [Mapping [(''id'', PyStr ''call_1''), (''name'', PyStr ''get_weather''),
                                    (''arguments'', PyStr ''{}'')]],
      m_tool_call_id = Some ''call_0''\<rparr> \<and>
   map_option (\<lambda>snap. snap ! 1)
     (files (snd (log_conversation demo_env flat_state))
        (record_path (now demo_env (trace flat_state)))) =
     Some \<lparr>s_role = ''assistant'', s_content = Some PyNone,
      s_tool_calls = Some [PyDict [(''id'', PyStr ''call_1''), (''name'', PyStr ''get_weather''),
                                    (''arguments'', PyStr ''{}'')]],
      s_tool_call_id = Some ''call_0''\<rparr> \<and>
   \<not> normal_form (PyDict [(''id'', PyStr ''call_1''), (''name'', PyStr ''get_weather''),
                                    (''arguments'', PyStr ''{}'')])"
  by (simp add: log_conversation_def makedirs_def write_json_def flat_state_def connected_def
      fresh_def user_message_def flat_request_def flat_call_def serialize_message_def
      record_path_def normal_form_def)

text \<open>The weather conversation: three messages, the tool call recorded through \<^verbatim>\<open>to_dict\<close>.\<close>

theorem recorded_message_fields_witness:
  "fst (log_conversation demo_env weather_state) = Inr () \<and>
   m_tool_calls (messages weather_state ! 1) = Some [weather_call] \<and>
   (\<exists>snap. files (snd (log_conversation demo_env weather_state))
              (record_path (now demo_env (trace weather_state))) = Some snap \<and>
      length snap = 3 \<and>
      s_role (snap ! 1) = ''assistant'' \<and>
      s_content (snap ! 1) = Some PyNone \<and>
      s_tool_call_id (snap ! 1) = None \<and>
      s_tool_call_id (snap ! 2) = Some ''call_1'' \<and>
      s_tool_calls (snap ! 2) = None \<and>
      s_tool_calls (snap ! 1) =
        Some [PyDict [(''id'', PyStr ''call_1''),
                (''function'', PyDict [(''arguments'', PyStr ''{}''),
                                       (''name'', PyStr ''get_weather'')]),
                (''type'', PyStr ''function'')]])"
proof -
  have h: "log_conversation demo_env weather_state =
      (Inr (), snd (log_conversation demo_env weather_state))"
    by (simp add: log_conversation_def makedirs_def write_json_def weather_state_def
        connected_def fresh_def user_message_def tool_request_message_def tool_message_def
        weather_request_def weather_call_def serialize_message_def record_path_def)
  have m1: "messages weather_state ! 1 = tool_request_message weather_request"
    and m2: "messages weather_state ! 2 = tool_message ''call_1'' weather_result"
    and len: "length (messages weather_state) = 3"
    and lt: "1 < length (messages weather_state)" "2 < length (messages weather_state)"
    by (simp_all add: weather_state_def)
  from recorded_message_fields [OF h] obtain snap where
    snap: "files (snd (log_conversation demo_env weather_state))
              (record_path (now demo_env (trace weather_state))) = Some snap"
      "length snap = length (messages weather_state)"
    and each: "\<And>i. i < length (messages weather_state) \<Longrightarrow>
        m_role (messages weather_state ! i) = Some (s_role (snap ! i)) \<and>
        s_content (snap ! i) = m_content (messages weather_state ! i) \<and>
        s_tool_call_id (snap ! i) = m_tool_call_id (messages weather_state ! i) \<and>
        (m_tool_calls (messages weather_state ! i) = None \<longrightarrow> s_tool_calls (snap ! i) = None) \<and>
        (\<forall>tcs. m_tool_calls (messages weather_state ! i) = Some tcs \<longrightarrow>
           (\<exists>ds. s_tool_calls (snap ! i) = Some ds \<and> length ds = length tcs \<and>
              (\<forall>j<length tcs.
                 (\<forall>c f dict. tcs ! j = Structured c f dict \<longrightarrow> ds ! j = dict) \<and>
                 (\<forall>kvs. tcs ! j = Mapping kvs \<longrightarrow> ds ! j = PyDict kvs) \<and>
                 (\<forall>c f. tcs ! j = Plain c f \<longrightarrow>
                    ds ! j = PyDict [(''id'', PyStr c),
                               (''function'', PyDict [(''name'', PyStr (fn_name f)),
                                                (''arguments'', PyStr (fn_arguments f))])] \<and>
                    normal_form (ds ! j)) \<and>
                 tcs ! j \<noteq> Opaque)))"
    by blast
  have calls: "m_tool_calls (messages weather_state ! 1) = Some [weather_call]"
    unfolding m1 by (simp add: tool_request_message_def weather_request_def)
  note e1 = each [OF lt(1), unfolded m1]
  note e2 = each [OF lt(2), unfolded m2]
  have calls': "m_tool_calls (tool_request_message weather_request) = Some [weather_call]"
    by (simp add: tool_request_message_def weather_request_def)
  from e1 calls' obtain ds where
    ds: "s_tool_calls (snap ! 1) = Some ds" "length ds = 1"
    and d0: "\<forall>c f dict. weather_call = Structured c f dict \<longrightarrow> ds ! 0 = dict"
    by fastforce
  from d0 have "ds ! 0 = PyDict [(''id'', PyStr ''call_1''),
                (''function'', PyDict [(''arguments'', PyStr ''{}''),
                                       (''name'', PyStr ''get_weather'')]),
                (''type'', PyStr ''function'')]"
    by (simp add: weather_call_def)
  with ds have ds1: "s_tool_calls (snap ! 1) =
        Some [PyDict [(''id'', PyStr ''call_1''),
                (''function'', PyDict [(''arguments'', PyStr ''{}''),
                                       (''name'', PyStr ''get_weather'')]),
                (''type'', PyStr ''function'')]]"
    by (cases ds) auto
  from e1 have r1: "s_role (snap ! 1) = ''assistant''"
    "s_content (snap ! 1) = Some PyNone" "s_tool_call_id (snap ! 1) = None"
    by (simp_all add: tool_request_message_def weather_request_def)
  from e2 have r2: "s_tool_call_id (snap ! 2) = Some ''call_1''"
    "s_tool_calls (snap ! 2) = None"
    by (simp_all add: tool_message_def)
  from h have "fst (log_conversation demo_env weather_state) = Inr ()"
    by (metis fst_conv)
  with snap len calls ds1 r1 r2 show ?thesis by (intro conjI exI [of _ snap]) simp_all
qed

text \<open>
  C6 (as amended). A message that the recorder cannot serialize is a message without
  \<^verbatim>\<open>role\<close> or a message whose \<^verbatim>\<open>tool_calls\<close> hold an object that has neither \<^verbatim>\<open>to_dict\<close>
  nor the attributes and is no dictionary. When the conversation contains such a
  message, the recorder raises, writes no file and leaves the conversation as it is.
  Inside \<^verbatim>\<open>process_query\<close> this is fatal to the query: when the tool request of a turn
  cannot be serialized, \<^verbatim>\<open>process_query\<close> raises right after appending the assistant
  message, before any tool is called. A tool-role message without \<^verbatim>\<open>tool_call_id\<close> is
  not such a message (see the counterexample): it is recorded without the field.
\<close>

theorem unrecordable_message_raises:
  assumes "serialize_message m = Inl e"
  shows "(m_role m = None \<or> (\<exists>tcs. m_tool_calls m = Some tcs \<and> Opaque \<in> set tcs)) \<and>
    (m \<in> set (messages s) \<longrightarrow>
       (\<exists>e'. fst (log_conversation E s) = Inl e' \<and>
          files (snd (log_conversation E s)) = files s \<and>
          trace (snd (log_conversation E s)) = trace s \<and>
          messages (snd (log_conversation E s)) = messages s)) \<and>
    (process_query E k s' q = (None, s0) \<and>
     llm_create E (trace s0) (messages s0) (tools s0) = Inr (Response (msg # others)) \<and>
     truthy (lm_tool_calls msg) \<and> m = tool_request_message msg \<longrightarrow>
       (\<exists>e' s1. process_query E (Suc k + n) s' q = (Some (Inl e'), s1) \<and>
          files s1 = files s0 \<and>
          trace s1 = trace s0 @ [LLMCall (messages s0) (tools s0)] \<and>
          messages s1 = messages s0 @ [m]))"
proof (intro conjI impI)
  show "m_role m = None \<or> (\<exists>tcs. m_tool_calls m = Some tcs \<and> Opaque \<in> set tcs)"
    using assms serialize_message_raises [of m] by blast
next
  assume "m \<in> set (messages s)"
  from log_conversation_raises [OF this assms, of E]
  show "\<exists>e'. fst (log_conversation E s) = Inl e' \<and>
          files (snd (log_conversation E s)) = files s \<and>
          trace (snd (log_conversation E s)) = trace s \<and>
          messages (snd (log_conversation E s)) = messages s"
    by (auto split: if_splits)
next
  assume a: "process_query E k s' q = (None, s0) \<and>
     llm_create E (trace s0) (messages s0) (tools s0) = Inr (Response (msg # others)) \<and>
     truthy (lm_tool_calls msg) \<and> m = tool_request_message msg"
  let ?s1 = "s0\<lparr>trace := trace s0 @ [LLMCall (messages s0) (tools s0)],
                 messages := messages s0 @ [tool_request_message msg]\<rparr>"
  have "m \<in> set (messages ?s1)" using a by simp
  from log_conversation_raises [OF this assms, of E] obtain e' s1 where
    log: "log_conversation E ?s1 = (Inl e', s1)"
    and s1: "files s1 = files s0" "trace s1 = trace s0 @ [LLMCall (messages s0) (tools s0)]"
      "messages s1 = messages s0 @ [m]"
    using a by (auto split: if_splits)
  have "query_loop E (Suc n) s0 = (Some (Inl e'), s1)"
    using query_loop_request [of E s0 msg others n] a log by simp
  moreover have "Suc k + n = k + Suc n" by simp
  ultimately have "process_query E (Suc k + n) s' q = (Some (Inl e'), s1)"
    using process_query_continue [of E k s' q s0 "Suc n"] a by simp
  with s1 show "\<exists>e' s1. process_query E (Suc k + n) s' q = (Some (Inl e'), s1) \<and>
          files s1 = files s0 \<and>
          trace s1 = trace s0 @ [LLMCall (messages s0) (tools s0)] \<and>
          messages s1 = messages s0 @ [m]"
    by blast
qed

text \<open>
  A conversation with a tool-role message that has no \<^verbatim>\<open>tool_call_id\<close>: the recorder
  succeeds and writes the message without the field.
\<close>

theorem missing_tool_call_id_counterexample:
  "messages orphan_state ! 1 =
     \<lparr>m_role = Some ''tool'', m_content = Some (PyStr ''15C, cloudy''),
      m_tool_calls = None, m_tool_call_id = None\<rparr> \<and>
   fst (log_conversation demo_env orphan_state) = Inr () \<and>
   files (snd (log_conversation demo_env orphan_state))
     (record_path (now demo_env (trace orphan_state))) =
     Some [\<lparr>s_role = ''user'', s_content = Some (PyStr ''weather?''),
            s_tool_calls = None, s_tool_call_id = None\<rparr>,
           \<lparr>s_role = ''tool'', s_content = Some (PyStr ''15C, cloudy''),
            s_tool_calls = None, s_tool_call_id = None\<rparr>]"
  by (simp add: log_conversation_def makedirs_def write_json_def orphan_state_def
      connected_def fresh_def user_message_def orphan_result_def serialize_message_def
      record_path_def)

text \<open>A tool request with an opaque object: the recorder and the query raise.\<close>

theorem unrecordable_message_raises_witness:
  "serialize_message (tool_request_message opaque_request) = Inl AttributeError \<and>
   tool_request_message opaque_request \<in>
     set (messages (connected\<lparr>messages := [user_message ''weather?'',
                                             tool_request_message opaque_request]\<rparr>)) \<and>
   fst (log_conversation opaque_env
     (connected\<lparr>messages := [user_message ''weather?'',
                             tool_request_message opaque_request]\<rparr>)) = Inl AttributeError \<and>
   fst (process_query opaque_env 1 connected ''weather?'') = Some (Inl AttributeError) \<and>
   trace (snd (process_query opaque_env 1 connected ''weather?'')) =
     trace connected @ [LLMCall [user_message ''weather?''] (tools connected)]"
proof -
  let ?m = "tool_request_message opaque_request"
  let ?s = "connected\<lparr>messages := [user_message ''weather?'', ?m]\<rparr>"
  let ?t = "connected\<lparr>messages := [user_message ''weather?'']\<rparr>"
  have a: "serialize_message ?m = Inl AttributeError"
    by (simp add: serialize_message_def tool_request_message_def opaque_request_def
        weather_call_def)
  have b: "?m \<in> set (messages ?s)" by simp
  have c: "process_query opaque_env 0 connected ''weather?'' = (None, ?t)"
    by (rule process_query_start)
  have d: "llm_create opaque_env (trace ?t) (messages ?t) (tools ?t) =
      Inr (Response (opaque_request # []))"
    by (simp add: opaque_env_def)
  have e: "truthy (lm_tool_calls opaque_request)" by (simp add: opaque_request_def)
  note t = unrecordable_message_raises [OF a, of ?s opaque_env 0 connected
      "''weather?''" ?t opaque_request "[]" 0]
  have f: "fst (log_conversation opaque_env ?s) = Inl AttributeError"
    by (simp add: log_conversation_def makedirs_def connected_def fresh_def
        user_message_def serialize_message_def tool_request_message_def opaque_request_def
        weather_call_def)
  from t c d e obtain e' s1 where
    g: "process_query opaque_env (Suc 0 + 0) connected ''weather?'' = (Some (Inl e'), s1)"
    and h: "trace s1 = trace ?t @ [LLMCall (messages ?t) (tools ?t)]"
    by blast
  have "fst (process_query opaque_env 1 connected ''weather?'') = Some (Inl AttributeError)"
    by (simp add: process_query_def call_llm_def opaque_env_def demo_env_def
        log_conversation_def makedirs_def connected_def fresh_def user_message_def
        serialize_message_def tool_request_message_def opaque_request_def weather_call_def)
  with a b f g h show ?thesis by simp
qed




text \<open>
  C8. A call of \<^verbatim>\<open>process_query\<close> starts its loop with the conversation set to exactly one
  message, of role \<^verbatim>\<open>user\<close> and with the query as its content (no tool calls, no
  \<^verbatim>\<open>tool_call_id\<close>), and what the conversation held before has no influence on the call. From then on the conversation is only appended to: after any number of
  turns it begins with the user message; the conversation after \<open>n\<close> turns is a prefix
  of the conversation after \<open>n + k\<close> turns; inside a turn, the conversation before a
  batch of tool calls is a prefix of the conversation after any part of the batch, which
  is a prefix of the conversation after a longer part; and neither the call of the LLM
  nor the recorder changes it. This holds whether the query returns, raises or is still
  running.
\<close>

theorem conversation_append_only:
  "process_query E 0 s q = (None, s\<lparr>messages := [user_message q]\<rparr>) \<and>
   user_message q =
     \<lparr>m_role = Some ''user'', m_content = Some (PyStr q),
      m_tool_calls = None, m_tool_call_id = None\<rparr> \<and>
   messages (snd (process_query E 0 s q)) =
     [\<lparr>m_role = Some ''user'', m_content = Some (PyStr q),
       m_tool_calls = None, m_tool_call_id = None\<rparr>] \<and>
   process_query E n (s\<lparr>messages := ms\<rparr>) q = process_query E n s q \<and>
   prefix [user_message q] (messages (snd (process_query E n s q))) \<and>
   prefix (messages (snd (process_query E n s q)))
     (messages (snd (process_query E (n + k) s q))) \<and>
   prefix (messages s1) (messages (snd (dispatch_tool_calls E s1 pre))) \<and>
   prefix (messages (snd (dispatch_tool_calls E s1 pre)))
     (messages (snd (dispatch_tool_calls E s1 (pre @ post)))) \<and>
   messages (snd (call_llm E s1)) = messages s1 \<and>
   messages (snd (log_conversation E s1)) = messages s1"
proof (intro conjI)
  show "process_query E 0 s q = (None, s\<lparr>messages := [user_message q]\<rparr>)"
    by (rule process_query_start)
  show "user_message q =
     \<lparr>m_role = Some ''user'', m_content = Some (PyStr q),
      m_tool_calls = None, m_tool_call_id = None\<rparr>"
    by (simp add: user_message_def)
  show "messages (snd (process_query E 0 s q)) =
     [\<lparr>m_role = Some ''user'', m_content = Some (PyStr q),
       m_tool_calls = None, m_tool_call_id = None\<rparr>]"
    by (simp add: process_query_start user_message_def)
  show "process_query E n (s\<lparr>messages := ms\<rparr>) q = process_query E n s q"
    by (simp add: process_query_def)
  show "prefix [user_message q] (messages (snd (process_query E n s q)))"
    unfolding process_query_messages
    using query_loop_grows [of E n "s\<lparr>messages := [user_message q]\<rparr>"
        "fst (query_loop E n (s\<lparr>messages := [user_message q]\<rparr>))"
        "snd (query_loop E n (s\<lparr>messages := [user_message q]\<rparr>))"]
    by simp
  show "prefix (messages (snd (process_query E n s q)))
     (messages (snd (process_query E (n + k) s q)))"
    unfolding process_query_messages by (rule query_loop_mono)
  show "prefix (messages s1) (messages (snd (dispatch_tool_calls E s1 pre)))"
    using dispatch_tool_calls_grows [of E s1 pre "fst (dispatch_tool_calls E s1 pre)"
        "snd (dispatch_tool_calls E s1 pre)"]
    by simp
  show "prefix (messages (snd (dispatch_tool_calls E s1 pre)))
     (messages (snd (dispatch_tool_calls E s1 (pre @ post))))"
  proof (cases "dispatch_tool_calls E s1 pre")
    case (Pair r s2)
    show ?thesis
    proof (cases r)
      case (Inl e)
      with Pair show ?thesis by (simp add: dispatch_tool_calls_append)
    next
      case (Inr u)
      with Pair dispatch_tool_calls_grows [of E s2 post
          "fst (dispatch_tool_calls E s2 post)" "snd (dispatch_tool_calls E s2 post)"]
      show ?thesis by (simp add: dispatch_tool_calls_append)
    qed
  qed
  show "messages (snd (call_llm E s1)) = messages s1"
    by (simp add: call_llm_def)
  show "messages (snd (log_conversation E s1)) = messages s1"
    by (rule log_conversation_keeps)
qed

text \<open>
  C9. A server script path that ends neither in \<^verbatim>\<open>.py\<close> nor in \<^verbatim>\<open>.js\<close> makes
  \<^verbatim>\<open>connect_to_server\<close> raise \<^verbatim>\<open>ValueError\<close> and leaves the whole state as it was: the
  trace has no new event (no process is spawned, no session is opened), the exit stack
  holds no new resource, and the \<^verbatim>\<open>session\<close> field keeps its value.
\<close>

theorem connect_rejects_other_suffix:
  assumes "\<not> endswith p ''.py''" and "\<not> endswith p ''.js''"
  shows "connect_to_server E s p =
           (Inl (ValueError ''Server script must be a .py or .js file''), s)"
  using assms by (simp add: connect_to_server_def)

theorem connect_rejects_other_suffix_witness:
  "\<not> endswith ''server.txt'' ''.py'' \<and> \<not> endswith ''server.txt'' ''.js'' \<and>
   connect_to_server demo_env fresh ''server.txt'' =
     (Inl (ValueError ''Server script must be a .py or .js file''), fresh) \<and>
   session fresh = None"
proof -
  have a: "\<not> endswith ''server.txt'' ''.py''" by (simp add: endswith_def)
  have b: "\<not> endswith ''server.txt'' ''.js''" by (simp add: endswith_def)
  show ?thesis
    using a b connect_rejects_other_suffix [OF a b, of demo_env fresh]
    by (simp add: fresh_def)
qed

text \<open>
  C10. When, at the head of any turn of \<^verbatim>\<open>process_query\<close> (after \<open>k\<close> completed turns, the
  loop being in state \<open>s0\<close>), the LLM answers with a response object without \<^verbatim>\<open>choices\<close>,
  \<^verbatim>\<open>process_query\<close> raises \<^verbatim>\<open>AttributeError\<close>: the conversation is left as it was before
  the call, so no final assistant message is appended, and nothing is recorded.
\<close>

theorem no_choices_raises:
  assumes "process_query E k s q = (None, s0)"
    and "llm_create E (trace s0) (messages s0) (tools s0) = Inr NoChoices"
  shows "process_query E (Suc k + n) s q =
           (Some (Inl AttributeError),
            s0\<lparr>trace := trace s0 @ [LLMCall (messages s0) (tools s0)]\<rparr>)"
proof -
  have "query_loop E (Suc n) s0 =
      (Some (Inl AttributeError),
       s0\<lparr>trace := trace s0 @ [LLMCall (messages s0) (tools s0)]\<rparr>)"
    using assms(2) by (simp add: call_llm_def)
  moreover have "Suc k + n = k + Suc n" by simp
  ultimately show ?thesis
    using process_query_continue [OF assms(1), of "Suc n"] by simp
qed

theorem no_choices_raises_witness:
  "process_query no_choices_env 0 connected ''2+2?'' =
     (None, connected\<lparr>messages := [user_message ''2+2?'']\<rparr>) \<and>
   llm_create no_choices_env (trace connected) [user_message ''2+2?''] (tools connected) =
     Inr NoChoices \<and>
   process_query no_choices_env 1 connected ''2+2?'' =
     (Some (Inl AttributeError),
      connected\<lparr>messages := [user_message ''2+2?''],
                trace := trace connected @
                  [LLMCall [user_message ''2+2?''] (tools connected)]\<rparr>)"
proof -
  have a: "process_query no_choices_env 0 connected ''2+2?'' =
      (None, connected\<lparr>messages := [user_message ''2+2?'']\<rparr>)"
    by (rule process_query_start)
  have b: "llm_create no_choices_env
      (trace (connected\<lparr>messages := [user_message ''2+2?'']\<rparr>))
      (messages (connected\<lparr>messages := [user_message ''2+2?'']\<rparr>))
      (tools (connected\<lparr>messages := [user_message ''2+2?'']\<rparr>)) = Inr NoChoices"
    by (simp add: no_choices_env_def)
  show ?thesis
    using a b no_choices_raises [OF a b, of 0] by (simp add: no_choices_env_def)
qed

end
